theory Spec2Isabelle
  imports Main "HOL-Library.Word"
begin

section \<open>orbit-js: the host bridge of src/index.ts\<close>

text \<open>
  The theory embeds the class \<open>OrbitCore\<close> and the functions around it
  (\<open>createOrbit\<close>, \<open>instantiateOrbit\<close>, \<open>validateExports\<close>, \<open>loadWasmBytes\<close>).
  The WebAssembly module behind \<open>this.exports\<close> is foreign code: its entry points are
  functions on the state of the module instance, given as a record of parameters.
  The built-ins of the JavaScript platform the code calls (\<open>TextDecoder\<close>,
  \<open>JSON.parse\<close>, \<open>node:fs\<close>, \<open>URL\<close>, \<open>WebAssembly.instantiate\<close>, \<open>fetch\<close>)
  are parameters too. Strings are lists of 8-bit characters, JavaScript numbers that hold
  pointers, lengths and status codes are integers.
\<close>

subsection \<open>Values, errors, linear memory\<close>

type_synonym byte = "8 word"

text \<open>
  What \<open>JSON.parse\<close> can return, and \<open>undefined\<close> for a property that is not there.
  The cast \<open>as T\<close> of \<open>bytesToJson\<close> checks nothing at run time, so the payload of an
  error is any such value. A number is kept as the text of its token, an object as the
  list of its own properties (keys distinct).
\<close>

datatype js =
    JUndefined
  | JNull
  | JBool bool
  | JNum string
  | JStr string
  | JArr "js list"
  | JObj "(string \<times> js) list"

text \<open>
  Everything that can be thrown. \<open>OrbitError detail message name\<close> is the class of
  lines 49-54; the others are the platform's \<open>Error\<close>, \<open>TypeError\<close>, \<open>RangeError\<close>,
  \<open>SyntaxError\<close>, and \<open>Trap\<close> for whatever an entry point of the module throws.
\<close>

datatype exn =
    Error string
  | TypeError string
  | RangeError string
  | SyntaxError
  | Trap string
  | OrbitError js string string

fun is_OrbitError :: "exn \<Rightarrow> bool" where
  "is_OrbitError (OrbitError d m n) = True"
| "is_OrbitError e = False"

text \<open>\<open>interface OrbitSlice\<close>, lines 91-95.\<close>

record OrbitSlice =
  ptr :: int
  len :: int
  cap :: int

definition STATUS_OK :: int where
  "STATUS_OK = 0"

definition SLICE_STRUCT_SIZE :: int where
  "SLICE_STRUCT_SIZE = 12"

text \<open>
  The module instance: \<open>buf_id\<close> is the identity of the object \<open>exports.memory.buffer\<close>
  (a new one after the memory has grown), \<open>mem\<close> its bytes, \<open>core\<close> whatever else the
  module keeps.
\<close>

record 'c world =
  buf_id :: nat
  mem :: "byte list"
  core :: 'c

text \<open>
  \<open>interface OrbitExports\<close>, lines 56-89. The allocator returns a pointer (0 when it
  fails), the deallocator returns nothing, an entry point returns a status; each of
  them may trap instead, which the host sees as an exception. All of them may change
  the instance, also its memory and the identity of its buffer.
\<close>

record 'c OrbitExports =
  orbit_alloc :: "int \<Rightarrow> 'c world \<Rightarrow> (exn + int) \<times> 'c world"
  orbit_dealloc :: "int \<Rightarrow> int \<Rightarrow> int \<Rightarrow> 'c world \<Rightarrow> (exn + unit) \<times> 'c world"
  orbit_version :: "int \<Rightarrow> 'c world \<Rightarrow> (exn + int) \<times> 'c world"
  orbit_parse :: "int \<Rightarrow> int \<Rightarrow> int \<Rightarrow> 'c world \<Rightarrow> (exn + int) \<times> 'c world"
  orbit_evaluate :: "int \<Rightarrow> int \<Rightarrow> int \<Rightarrow> 'c world \<Rightarrow> (exn + int) \<times> 'c world"

text \<open>
  The calls across the boundary are recorded as they are made: which call site of
  \<open>invoke\<close> allocated what (\<open>Alloc\<close> with the pointer returned, \<open>AllocTrap\<close> when the
  allocator trapped), which call site called the deallocator on what, each entry-point
  call, and each access to the memory with the identity of the buffer under the view
  used and the identity of the current buffer at that moment.
\<close>

datatype site = InputBuf | ResultSlot | ResultBuf

datatype event =
    Alloc site int int
  | AllocTrap site int
  | Dealloc site int int int
  | EntryCall int int int
  | Access nat nat

text \<open>
  \<open>class OrbitCore\<close>, lines 107-111: the two cached views (each the identity of the
  buffer it was built on), the instance behind \<open>this.exports\<close>, and the record of calls.
\<close>

record 'c OrbitCore =
  cachedView :: "nat option"
  cachedU8 :: "nat option"
  inst :: "'c world"
  trace :: "event list"

definition record_event :: "event \<Rightarrow> 'c OrbitCore \<Rightarrow> 'c OrbitCore" where
  "record_event e h = h\<lparr>trace := trace h @ [e]\<rparr>"

definition alloc ::
  "'c OrbitExports \<Rightarrow> site \<Rightarrow> int \<Rightarrow> 'c OrbitCore \<Rightarrow> (exn + int) \<times> 'c OrbitCore" where
  "alloc ex st n h =
     (case orbit_alloc ex n (inst h) of
        (Inl e, w) \<Rightarrow> (Inl e, record_event (AllocTrap st n) (h\<lparr>inst := w\<rparr>))
      | (Inr p, w) \<Rightarrow> (Inr p, record_event (Alloc st n p) (h\<lparr>inst := w\<rparr>)))"

definition dealloc ::
  "'c OrbitExports \<Rightarrow> site \<Rightarrow> int \<Rightarrow> int \<Rightarrow> int \<Rightarrow> 'c OrbitCore \<Rightarrow> (exn + unit) \<times> 'c OrbitCore" where
  "dealloc ex st p l c h =
     (case orbit_dealloc ex p l c (inst h) of
        (r, w) \<Rightarrow> (r, (record_event (Dealloc st p l c) h)\<lparr>inst := w\<rparr>))"

subsection \<open>Views on the memory\<close>

text \<open>\<open>getUint8Memory\<close>, lines 258-263, and \<open>getDataView\<close>, lines 265-273.\<close>

definition getUint8Memory :: "'c OrbitCore \<Rightarrow> nat \<times> 'c OrbitCore" where
  "getUint8Memory h =
     (case cachedU8 h of
        None \<Rightarrow> (buf_id (inst h), h\<lparr>cachedU8 := Some (buf_id (inst h))\<rparr>)
      | Some v \<Rightarrow>
          if v = buf_id (inst h) then (v, h)
          else (buf_id (inst h), h\<lparr>cachedU8 := Some (buf_id (inst h))\<rparr>))"

definition getDataView :: "'c OrbitCore \<Rightarrow> nat \<times> 'c OrbitCore" where
  "getDataView h =
     (case cachedView h of
        None \<Rightarrow> (buf_id (inst h), h\<lparr>cachedView := Some (buf_id (inst h))\<rparr>)
      | Some v \<Rightarrow>
          if v = buf_id (inst h) then (v, h)
          else (buf_id (inst h), h\<lparr>cachedView := Some (buf_id (inst h))\<rparr>))"

text \<open>
  The three operations on a view that the class uses. A view whose buffer is no longer
  the current one is detached (the platform throws a \<open>TypeError\<close>); a write or a word
  read outside the buffer throws a \<open>RangeError\<close>; \<open>slice\<close> clamps its bounds and copies.
\<close>

definition u8_set :: "nat \<Rightarrow> byte list \<Rightarrow> int \<Rightarrow> 'c OrbitCore \<Rightarrow> (exn + unit) \<times> 'c OrbitCore" where
  "u8_set v bs off h =
     (let h1 = record_event (Access v (buf_id (inst h))) h; m = mem (inst h) in
      if v = buf_id (inst h) then
        (if off < 0 \<or> int (length m) < off + int (length bs)
         then (Inl (RangeError ''offset is out of bounds''), h1)
         else (Inr (),
               h1\<lparr>inst := (inst h)\<lparr>mem := take (nat off) m @ bs @ drop (nat off + length bs) m\<rparr>\<rparr>))
      else (Inl (TypeError ''detached ArrayBuffer''), h1))"

fun le32 :: "byte list \<Rightarrow> int" where
  "le32 [] = 0"
| "le32 (b # bs) = uint b + 256 * le32 bs"

definition dv_getUint32 :: "nat \<Rightarrow> int \<Rightarrow> 'c OrbitCore \<Rightarrow> (exn + int) \<times> 'c OrbitCore" where
  "dv_getUint32 v off h =
     (let h1 = record_event (Access v (buf_id (inst h))) h; m = mem (inst h) in
      if v = buf_id (inst h) then
        (if off < 0 \<or> int (length m) < off + 4
         then (Inl (RangeError ''offset is outside the bounds of the DataView''), h1)
         else (Inr (le32 (take 4 (drop (nat off) m))), h1))
      else (Inl (TypeError ''detached ArrayBuffer''), h1))"

definition rel_index :: "int \<Rightarrow> nat \<Rightarrow> nat" where
  "rel_index k n = (if k < 0 then nat (max (int n + k) 0) else min (nat k) n)"

definition u8_slice :: "nat \<Rightarrow> int \<Rightarrow> int \<Rightarrow> 'c OrbitCore \<Rightarrow> (exn + byte list) \<times> 'c OrbitCore" where
  "u8_slice v start fin h =
     (let h1 = record_event (Access v (buf_id (inst h))) h; m = mem (inst h) in
      if v = buf_id (inst h) then
        (Inr (take (rel_index fin (length m) - rel_index start (length m))
                (drop (rel_index start (length m)) m)), h1)
      else (Inl (TypeError ''detached ArrayBuffer''), h1))"

subsection \<open>The slice codec\<close>

definition zero_slice :: OrbitSlice where
  "zero_slice = \<lparr>ptr = 0, len = 0, cap = 0\<rparr>"

text \<open>\<open>writeInput\<close>, lines 218-228.\<close>

definition writeInput :: "'c OrbitExports \<Rightarrow> byte list option \<Rightarrow> 'c OrbitCore \<Rightarrow> (exn + OrbitSlice) \<times> 'c OrbitCore" where
  "writeInput ex bytes h =
     (case bytes of
        None \<Rightarrow> (Inr zero_slice, h)
      | Some bs \<Rightarrow>
          if bs = [] then (Inr zero_slice, h)
          else
            (case alloc ex InputBuf (int (length bs)) h of
               (Inl e, h1) \<Rightarrow> (Inl e, h1)
             | (Inr p, h1) \<Rightarrow>
                 if p = 0 then (Inl (Error ''orbit wasm could not allocate input buffer''), h1)
                 else
                   (case getUint8Memory h1 of
                      (v, h2) \<Rightarrow>
                        (case u8_set v bs p h2 of
                           (Inl e, h3) \<Rightarrow> (Inl e, h3)
                         | (Inr u, h3) \<Rightarrow>
                             (Inr \<lparr>ptr = p, len = int (length bs), cap = int (length bs)\<rparr>, h3)))))"

text \<open>\<open>freeInput\<close>, lines 230-234.\<close>

definition freeInput ::
  "'c OrbitExports \<Rightarrow> OrbitSlice \<Rightarrow> 'c OrbitCore \<Rightarrow> (exn + unit) \<times> 'c OrbitCore" where
  "freeInput ex sl h =
     (if ptr sl = 0 then (Inr (), h) else dealloc ex InputBuf (ptr sl) (len sl) (cap sl) h)"

text \<open>\<open>readSlice\<close>, lines 236-243: one view, three little-endian words.\<close>

definition readSlice :: "int \<Rightarrow> 'c OrbitCore \<Rightarrow> (exn + OrbitSlice) \<times> 'c OrbitCore" where
  "readSlice p h =
     (case getDataView h of
        (v, h0) \<Rightarrow>
          (case dv_getUint32 v p h0 of
             (Inl e, h1) \<Rightarrow> (Inl e, h1)
           | (Inr a, h1) \<Rightarrow>
               (case dv_getUint32 v (p + 4) h1 of
                  (Inl e, h2) \<Rightarrow> (Inl e, h2)
                | (Inr b, h2) \<Rightarrow>
                    (case dv_getUint32 v (p + 8) h2 of
                       (Inl e, h3) \<Rightarrow> (Inl e, h3)
                     | (Inr c, h3) \<Rightarrow> (Inr \<lparr>ptr = a, len = b, cap = c\<rparr>, h3)))))"

text \<open>\<open>copySlice\<close>, lines 245-250.\<close>

definition copySlice :: "OrbitSlice \<Rightarrow> 'c OrbitCore \<Rightarrow> (exn + byte list) \<times> 'c OrbitCore" where
  "copySlice sl h =
     (if len sl = 0 then (Inr [], h)
      else (case getUint8Memory h of
              (v, h1) \<Rightarrow> u8_slice v (ptr sl) (ptr sl + len sl) h1))"

text \<open>\<open>freeBuffer\<close>, lines 252-256.\<close>

definition freeBuffer ::
  "'c OrbitExports \<Rightarrow> OrbitSlice \<Rightarrow> 'c OrbitCore \<Rightarrow> (exn + unit) \<times> 'c OrbitCore" where
  "freeBuffer ex sl h =
     (if ptr sl = 0 then (Inr (), h) else dealloc ex ResultBuf (ptr sl) (len sl) (cap sl) h)"

subsection \<open>Decoding payloads, the typed error\<close>

text \<open>
  The platform under the class: \<open>TextDecoder.decode\<close>, \<open>TextEncoder.encode\<close>,
  \<open>JSON.parse\<close> (\<open>None\<close> when it throws its \<open>SyntaxError\<close>) and the conversion of a
  number to a string.
\<close>

record platform =
  text_decode :: "byte list \<Rightarrow> string"
  text_encode :: "string \<Rightarrow> byte list"
  json_parse :: "string \<Rightarrow> js option"
  number_to_string :: "string \<Rightarrow> string"

text \<open>\<open>bytesToString\<close>, lines 331-336, and \<open>bytesToJson\<close>, lines 338-341.\<close>

definition bytesToString :: "platform \<Rightarrow> byte list \<Rightarrow> string" where
  "bytesToString P bytes = (if bytes = [] then [] else text_decode P bytes)"

definition bytesToJson :: "platform \<Rightarrow> byte list \<Rightarrow> exn + js" where
  "bytesToJson P bytes =
     (case json_parse P (bytesToString P bytes) of
        None \<Rightarrow> Inl SyntaxError
      | Some v \<Rightarrow> Inr v)"

text \<open>\<open>encodeString\<close>, lines 275-277.\<close>

definition encodeString :: "platform \<Rightarrow> string \<Rightarrow> byte list option" where
  "encodeString P v = (if v = [] then None else Some (text_encode P v))"

text \<open>
  Reading the property \<open>detail.kind\<close> or \<open>detail.message\<close>: a \<open>TypeError\<close> on \<open>null\<close>
  and \<open>undefined\<close>, the own property of an object, and \<open>undefined\<close> otherwise (no
  built-in prototype has a property of either name).
\<close>

fun get_prop :: "js \<Rightarrow> string \<Rightarrow> exn + js" where
  "get_prop JUndefined k = Inl (TypeError ''Cannot read properties of undefined'')"
| "get_prop JNull k = Inl (TypeError ''Cannot read properties of null'')"
| "get_prop (JObj kvs) k = (case map_of kvs k of None \<Rightarrow> Inr JUndefined | Some v \<Rightarrow> Inr v)"
| "get_prop v k = Inr JUndefined"

text \<open>
  The conversion to a string that a template literal makes. An array joins its elements
  with commas, \<open>null\<close> and \<open>undefined\<close> elements giving the empty string; an object is
  \<open>[object Object]\<close>, unless an own property \<open>toString\<close> hides the method of the
  prototype: then there is nothing to call and the platform throws a \<open>TypeError\<close>.
\<close>

fun ToString :: "(string \<Rightarrow> string) \<Rightarrow> js \<Rightarrow> exn + string"
  and join_elems :: "(string \<Rightarrow> string) \<Rightarrow> js list \<Rightarrow> exn + string" where
  "ToString ns JUndefined = Inr ''undefined''"
| "ToString ns JNull = Inr ''null''"
| "ToString ns (JBool b) = Inr (if b then ''true'' else ''false'')"
| "ToString ns (JNum n) = Inr (ns n)"
| "ToString ns (JStr s) = Inr s"
| "ToString ns (JArr xs) = join_elems ns xs"
| "ToString ns (JObj kvs) =
     (case map_of kvs ''toString'' of
        None \<Rightarrow> Inr ''[object Object]''
      | Some v \<Rightarrow> Inl (TypeError ''Cannot convert object to primitive value''))"
| "join_elems ns [] = Inr []"
| "join_elems ns (x # xs) =
     (case (if x = JNull \<or> x = JUndefined then Inr [] else ToString ns x) of
        Inl e \<Rightarrow> Inl e
      | Inr s \<Rightarrow>
          (if xs = [] then Inr s
           else (case join_elems ns xs of
                   Inl e \<Rightarrow> Inl e
                 | Inr t \<Rightarrow> Inr (s @ '','' @ t))))"

text \<open>
  \<open>new OrbitError(detail)\<close>, lines 49-54: the message is the template
  \<open>${detail.kind}: ${detail.message}\<close>, the name \<open>Orbit${detail.kind}Error\<close>. The
  result is the error object, or what the constructor throws on the way.
\<close>

definition new_OrbitError :: "platform \<Rightarrow> js \<Rightarrow> exn" where
  "new_OrbitError P detail =
     (case get_prop detail ''kind'' of
        Inl e \<Rightarrow> e
      | Inr k \<Rightarrow>
          (case ToString (number_to_string P) k of
             Inl e \<Rightarrow> e
           | Inr ks \<Rightarrow>
               (case get_prop detail ''message'' of
                  Inl e \<Rightarrow> e
                | Inr m \<Rightarrow>
                    (case ToString (number_to_string P) m of
                       Inl e \<Rightarrow> e
                     | Inr ms \<Rightarrow>
                         OrbitError detail (ks @ '': '' @ ms) (''Orbit'' @ ks @ ''Error'')))))"

subsection \<open>The call dispatcher\<close>

text \<open>
  \<open>invoke\<close>, lines 184-216, in three parts. \<open>invoke_try\<close> is the block of \<open>try\<close>
  (lines 199-202). \<open>invoke_boundary\<close> is lines 189-210: the input, the result slot, the
  \<open>try\<close> and its \<open>finally\<close>; it ends with the status and the payload, or with what was
  thrown. What the \<open>finally\<close> throws replaces the outcome of the \<open>try\<close>, and a
  statement that throws ends the block it is in. \<open>invoke\<close> adds lines 212-215.
\<close>

definition invoke_try ::
  "'c OrbitExports \<Rightarrow> (int \<Rightarrow> int \<Rightarrow> int \<Rightarrow> 'c world \<Rightarrow> (exn + int) \<times> 'c world) \<Rightarrow>
   OrbitSlice \<Rightarrow> int \<Rightarrow> 'c OrbitCore \<Rightarrow> (exn + int \<times> byte list) \<times> 'c OrbitCore" where
  "invoke_try ex call inputSlice resultSlicePtr h =
     (case call (ptr inputSlice) (len inputSlice) resultSlicePtr (inst h) of
        (Inl e, w) \<Rightarrow>
          (Inl e, record_event (EntryCall (ptr inputSlice) (len inputSlice) resultSlicePtr) (h\<lparr>inst := w\<rparr>))
      | (Inr status, w) \<Rightarrow>
          (case readSlice resultSlicePtr
                  (record_event (EntryCall (ptr inputSlice) (len inputSlice) resultSlicePtr) (h\<lparr>inst := w\<rparr>)) of
             (Inl e, h1) \<Rightarrow> (Inl e, h1)
           | (Inr resultSlice, h1) \<Rightarrow>
               (case copySlice resultSlice h1 of
                  (Inl e, h2) \<Rightarrow> (Inl e, h2)
                | (Inr payload, h2) \<Rightarrow>
                    (case freeBuffer ex resultSlice h2 of
                       (Inl e, h3) \<Rightarrow> (Inl e, h3)
                     | (Inr u, h3) \<Rightarrow> (Inr (status, payload), h3)))))"

definition invoke_boundary ::
  "'c OrbitExports \<Rightarrow> byte list option \<Rightarrow>
   (int \<Rightarrow> int \<Rightarrow> int \<Rightarrow> 'c world \<Rightarrow> (exn + int) \<times> 'c world) \<Rightarrow>
   'c OrbitCore \<Rightarrow> (exn + int \<times> byte list) \<times> 'c OrbitCore" where
  "invoke_boundary ex input call h =
     (case writeInput ex input h of
        (Inl e, h1) \<Rightarrow> (Inl e, h1)
      | (Inr inputSlice, h1) \<Rightarrow>
          (case alloc ex ResultSlot SLICE_STRUCT_SIZE h1 of
             (Inl e, h2) \<Rightarrow> (Inl e, h2)
           | (Inr resultSlicePtr, h2) \<Rightarrow>
               if resultSlicePtr = 0
               then
                 (case freeInput ex inputSlice h2 of
                    (Inl e, h3) \<Rightarrow> (Inl e, h3)
                  | (Inr u, h3) \<Rightarrow>
                      (Inl (Error ''orbit wasm could not allocate result slice''), h3))
               else
                 (case invoke_try ex call inputSlice resultSlicePtr h2 of
                    (r, h3) \<Rightarrow>
                      (case dealloc ex ResultSlot resultSlicePtr SLICE_STRUCT_SIZE
                              SLICE_STRUCT_SIZE h3 of
                         (Inl e, h4) \<Rightarrow> (Inl e, h4)
                       | (Inr u, h4) \<Rightarrow>
                           (case freeInput ex inputSlice h4 of
                              (Inl e, h5) \<Rightarrow> (Inl e, h5)
                            | (Inr v, h5) \<Rightarrow> (r, h5))))))"

definition invoke ::
  "platform \<Rightarrow> 'c OrbitExports \<Rightarrow> byte list option \<Rightarrow>
   (int \<Rightarrow> int \<Rightarrow> int \<Rightarrow> 'c world \<Rightarrow> (exn + int) \<times> 'c world) \<Rightarrow>
   (byte list \<Rightarrow> exn + 'a) \<Rightarrow> 'c OrbitCore \<Rightarrow> (exn + 'a) \<times> 'c OrbitCore" where
  "invoke P ex input call onOk h =
     (case invoke_boundary ex input call h of
        (Inl e, h1) \<Rightarrow> (Inl e, h1)
      | (Inr (status, payload), h1) \<Rightarrow>
          if status = STATUS_OK then (onOk payload, h1)
          else (case bytesToJson P payload of
                  Inl e \<Rightarrow> (Inl e, h1)
                | Inr detail \<Rightarrow> (Inl (new_OrbitError P detail), h1)))"

text \<open>The releases made at one call site, in the order of the calls.\<close>

fun releases :: "site \<Rightarrow> event list \<Rightarrow> (int \<times> int \<times> int) list" where
  "releases st [] = []"
| "releases st (Dealloc st' p l c # es) =
     (if st' = st then (p, l, c) # releases st es else releases st es)"
| "releases st (e # es) = releases st es"

text \<open>The allocations made at one call site: size asked and pointer returned.\<close>

fun allocations :: "site \<Rightarrow> event list \<Rightarrow> (int \<times> int) list" where
  "allocations st [] = []"
| "allocations st (Alloc st' n p # es) =
     (if st' = st then (n, p) # allocations st es else allocations st es)"
| "allocations st (e # es) = allocations st es"

text \<open>The accesses made through a view on a buffer that was not the current one.\<close>

fun stale_accesses :: "event list \<Rightarrow> event list" where
  "stale_accesses [] = []"
| "stale_accesses (Access v b # es) =
     (if v = b then stale_accesses es else Access v b # stale_accesses es)"
| "stale_accesses (e # es) = stale_accesses es"

fun accesses :: "event list \<Rightarrow> event list" where
  "accesses [] = []"
| "accesses (Access v b # es) = Access v b # accesses es"
| "accesses (e # es) = accesses es"

text \<open>
  What \<open>freeBuffer\<close> is called on in the \<open>try\<close> of \<open>invoke\<close>, given how the entry-point
  call ended and how the read of the result descriptor ended.
\<close>

definition result_release :: "(exn + int) \<Rightarrow> (exn + OrbitSlice) \<Rightarrow> (int \<times> int \<times> int) list" where
  "result_release c d =
     (case c of
        Inl e \<Rightarrow> []
      | Inr st \<Rightarrow>
          (case d of
             Inl e \<Rightarrow> []
           | Inr rs \<Rightarrow> if ptr rs = 0 then [] else [(ptr rs, len rs, cap rs)]))"

subsection \<open>The input resolver of evaluate\<close>

text \<open>\<open>interface OrbitEvaluateOptions\<close> and \<open>type OrbitEvaluateInput\<close>, lines 41-47.\<close>

record OrbitEvaluateOptions =
  filePath :: "string option"
  source :: "string option"
  encoding :: "string option"

datatype OrbitEvaluateInput = PlainString string | Options OrbitEvaluateOptions

text \<open>
  A \<open>URL\<close> object, and what \<open>existsSync\<close> and \<open>readFileSync\<close> are given: a path or a URL.
  \<open>nodeFs\<close> (lines 8-12) is the module \<open>node:fs\<close>, or \<open>None\<close> where there is none.
  Every call into it is recorded. The host also gives the constructor \<open>URL\<close>
  (\<open>None\<close> where it throws) and \<open>String.prototype.trim\<close>.
\<close>

record url =
  protocol :: string
  href :: string

datatype fs_target = PathTarget string | UrlTarget url

record node_fs =
  existsSync :: "fs_target \<Rightarrow> exn + bool"
  readFileSync :: "fs_target \<Rightarrow> string \<Rightarrow> exn + string"

datatype fs_call = ExistsSync fs_target | ReadFileSync fs_target string

record host_env =
  nodeFs :: "node_fs option"
  new_URL :: "string \<Rightarrow> url option"
  trim :: "string \<Rightarrow> string"

definition startsWith :: "string \<Rightarrow> string \<Rightarrow> bool" where
  "startsWith s p = (take (length p) s = p)"

text \<open>
  \<open>tryLoadFileInput\<close>, lines 308-329. Whatever is thrown inside the \<open>try\<close> (by
  \<open>new URL\<close>, \<open>existsSync\<close> or \<open>readFileSync\<close>) is caught and gives \<open>null\<close>.
  \<open>load_target\<close> is the \<open>target\<close> of line 321, \<open>None\<close> where \<open>new URL\<close> throws.
\<close>

definition load_target :: "host_env \<Rightarrow> string \<Rightarrow> fs_target option" where
  "load_target E trimmed =
     (if startsWith trimmed ''file:'' then map_option UrlTarget (new_URL E trimmed)
      else Some (PathTarget trimmed))"

definition tryLoadFileInput :: "host_env \<Rightarrow> string \<Rightarrow> string option \<Rightarrow> string option \<times> fs_call list" where
  "tryLoadFileInput E path enc =
     (case nodeFs E of
        None \<Rightarrow> (None, [])
      | Some fs \<Rightarrow>
          if trim E path = [] then (None, [])
          else
            (case load_target E (trim E path) of
               None \<Rightarrow> (None, [])
             | Some target \<Rightarrow>
                 (case existsSync fs target of
                    Inl e \<Rightarrow> (None, [ExistsSync target])
                  | Inr found \<Rightarrow>
                      if found then
                        (case readFileSync fs target (case enc of None \<Rightarrow> ''utf8'' | Some e \<Rightarrow> e) of
                           Inl e \<Rightarrow>
                             (None, [ExistsSync target,
                                     ReadFileSync target (case enc of None \<Rightarrow> ''utf8'' | Some e \<Rightarrow> e)])
                         | Inr contents \<Rightarrow>
                             (Some contents, [ExistsSync target,
                                     ReadFileSync target (case enc of None \<Rightarrow> ''utf8'' | Some e \<Rightarrow> e)]))
                      else (None, [ExistsSync target]))))"

text \<open>\<open>resolveEvaluateInput\<close>, lines 279-306.\<close>

definition resolveEvaluateInput :: "host_env \<Rightarrow> OrbitEvaluateInput \<Rightarrow> (exn + string) \<times> fs_call list" where
  "resolveEvaluateInput E input =
     (case input of
        PlainString s \<Rightarrow>
          (case tryLoadFileInput E s None of
             (None, calls) \<Rightarrow> (Inr s, calls)
           | (Some contents, calls) \<Rightarrow> (Inr contents, calls))
      | Options opts \<Rightarrow>
          (case source opts of
             Some src \<Rightarrow> (Inr src, [])
           | None \<Rightarrow>
               (case filePath opts of
                  None \<Rightarrow>
                    (Inl (TypeError ''orbit.evaluate requires a source string or options with filePath.''), [])
                | Some path \<Rightarrow>
                    if path = [] then
                      (Inl (TypeError ''orbit.evaluate requires a source string or options with filePath.''), [])
                    else
                      (case tryLoadFileInput E path (encoding opts) of
                         (Some contents, calls) \<Rightarrow> (Inr contents, calls)
                       | (None, calls) \<Rightarrow>
                           (case nodeFs E of
                              None \<Rightarrow>
                                (Inl (Error ''orbit.evaluate cannot read file paths in this environment''), calls)
                            | Some fs \<Rightarrow>
                                (Inl (Error (''orbit.evaluate could not read from file path: '' @ path)), calls))))))"

subsection \<open>Public operations\<close>

text \<open>\<open>version\<close>, lines 113-119; \<open>parse\<close>, lines 121-127; \<open>evaluate\<close>, lines 138-145.\<close>

definition version :: "platform \<Rightarrow> 'c OrbitExports \<Rightarrow> 'c OrbitCore \<Rightarrow> (exn + string) \<times> 'c OrbitCore" where
  "version P ex h =
     invoke P ex None (\<lambda>p l resultPtr. orbit_version ex resultPtr) (\<lambda>bytes. Inr (bytesToString P bytes)) h"

definition parse :: "platform \<Rightarrow> 'c OrbitExports \<Rightarrow> string \<Rightarrow> 'c OrbitCore \<Rightarrow> (exn + js) \<times> 'c OrbitCore" where
  "parse P ex src h = invoke P ex (encodeString P src) (orbit_parse ex) (bytesToJson P) h"

definition evaluate ::
  "platform \<Rightarrow> host_env \<Rightarrow> 'c OrbitExports \<Rightarrow> OrbitEvaluateInput \<Rightarrow> 'c OrbitCore \<Rightarrow>
   ((exn + js) \<times> 'c OrbitCore) \<times> fs_call list" where
  "evaluate P E ex input h =
     (case resolveEvaluateInput E input of
        (Inl e, calls) \<Rightarrow> ((Inl e, h), calls)
      | (Inr src, calls) \<Rightarrow>
          (invoke P ex (encodeString P src) (orbit_evaluate ex) (bytesToJson P) h, calls))"

subsection \<open>Instantiation\<close>

text \<open>
  What an instance exports: under each name a memory, a function or something else.
  An instance carries the object of its exports, the behaviour of the entry points and
  the state it starts in.
\<close>

datatype export_value = MemoryExport | FunctionExport | OtherExport

record 'c wasm_instance =
  exports_object :: "string \<rightharpoonup> export_value"
  entry_points :: "'c OrbitExports"
  initial_state :: "'c world"

text \<open>\<open>validateExports\<close>, lines 386-412; the loop is \<open>check_required\<close>.\<close>

definition required :: "string list" where
  "required =
     [''memory'', ''orbit_alloc'', ''orbit_dealloc'', ''orbit_version'', ''orbit_parse'',
      ''orbit_parse_with_recovery'', ''orbit_evaluate'', ''orbit_evaluate_ast'',
      ''orbit_value_to_json'', ''orbit_value_to_yaml'', ''orbit_value_to_msgpack'']"

fun check_required :: "string list \<Rightarrow> (string \<rightharpoonup> export_value) \<Rightarrow> exn + unit" where
  "check_required [] exports = Inr ()"
| "check_required (key # keys) exports =
     (case exports key of
        None \<Rightarrow> Inl (Error (''orbit wasm is missing required export: '' @ key))
      | Some v \<Rightarrow> check_required keys exports)"

definition validateExports :: "(string \<rightharpoonup> export_value) \<Rightarrow> exn + unit" where
  "validateExports exports =
     (case check_required required exports of
        Inl e \<Rightarrow> Inl e
      | Inr u \<Rightarrow>
          (case exports ''memory'' of
             Some MemoryExport \<Rightarrow> Inr ()
           | Some FunctionExport \<Rightarrow> Inl (Error ''orbit wasm did not export a WebAssembly.Memory'')
           | Some OtherExport \<Rightarrow> Inl (Error ''orbit wasm did not export a WebAssembly.Memory'')
           | None \<Rightarrow> Inl (Error ''orbit wasm did not export a WebAssembly.Memory'')))"

text \<open>
  \<open>interface OrbitInitOptions\<close>, lines 97-105. A \<open>BufferSource\<close> is an \<open>ArrayBuffer\<close>
  or a view (its buffer, \<open>byteOffset\<close>, \<open>byteLength\<close>); anything else is refused at run
  time. A location is a string or a \<open>URL\<close> object; imports are the names forwarded.
\<close>

datatype buffer_source =
    ArrayBuffer "byte list"
  | ArrayBufferView "byte list" nat nat
  | NotBufferSource

datatype url_input = UrlString string | UrlObject url

type_synonym wasm_imports = "string list"

record ('m, 'c) OrbitInitOptions =
  binary :: "buffer_source option"
  module :: "'m option"
  url_opt :: "url_input option"
  instantiate :: "(wasm_imports \<Rightarrow> exn + 'c wasm_instance) option"
  imports_opt :: "wasm_imports option"

text \<open>
  \<open>WebAssembly.instantiate\<close> gives an instance for a module, and for bytes an object
  with the property \<open>instance\<close> (or, as the code allows for, a bare instance).
\<close>

datatype 'c instantiated = WithInstance "'c wasm_instance" | BareInstance "'c wasm_instance"

record fetch_response =
  ok :: bool
  status :: string
  statusText :: string
  arrayBuffer :: "exn + byte list"

record ('m, 'c) wasm_env =
  isNodeLike :: bool
  DEFAULT_WASM_URL :: url
  URL_new :: "string \<Rightarrow> url option"
  URL_new_base :: "string \<Rightarrow> url \<Rightarrow> url option"
  readFile :: "url \<Rightarrow> exn + byte list"
  fetch :: "(url \<Rightarrow> exn + fetch_response) option"
  instantiate_module :: "'m \<Rightarrow> wasm_imports \<Rightarrow> exn + 'c wasm_instance"
  instantiate_bytes :: "byte list \<Rightarrow> wasm_imports \<Rightarrow> exn + 'c instantiated"

text \<open>\<open>normalizeUrl\<close>, lines 442-451.\<close>

definition normalizeUrl :: "('m, 'c) wasm_env \<Rightarrow> url_input \<Rightarrow> exn + url" where
  "normalizeUrl W input =
     (case input of
        UrlObject u \<Rightarrow> Inr u
      | UrlString s \<Rightarrow>
          (case URL_new W s of
             Some u \<Rightarrow> Inr u
           | None \<Rightarrow>
               (case URL_new_base W s (DEFAULT_WASM_URL W) of
                  Some u \<Rightarrow> Inr u
                | None \<Rightarrow> Inl (TypeError ''Invalid URL''))))"

text \<open>
  \<open>loadWasmBytes\<close>, lines 414-440. The override is used when it is truthy: a \<open>URL\<close>
  object, or a string that is not empty.
\<close>

definition loadWasmBytes :: "('m, 'c) wasm_env \<Rightarrow> url_input option \<Rightarrow> exn + byte list" where
  "loadWasmBytes W urlOverride =
     (case (case urlOverride of
              None \<Rightarrow> Inr (DEFAULT_WASM_URL W)
            | Some (UrlString s) \<Rightarrow>
                if s = [] then Inr (DEFAULT_WASM_URL W) else normalizeUrl W (UrlString s)
            | Some (UrlObject u) \<Rightarrow> normalizeUrl W (UrlObject u)) of
        Inl e \<Rightarrow> Inl e
      | Inr targetUrl \<Rightarrow>
          if protocol targetUrl = ''file:'' then
            (if isNodeLike W then readFile W targetUrl
             else Inl (Error ''File URLs are not supported in this environment. Provide wasm bytes via options.binary instead.''))
          else
            (case fetch W of
               None \<Rightarrow> Inl (Error ''Global fetch is unavailable. Provide wasm bytes via options.binary.'')
             | Some f \<Rightarrow>
                 (case f targetUrl of
                    Inl e \<Rightarrow> Inl e
                  | Inr response \<Rightarrow>
                      if ok response then arrayBuffer response
                      else Inl (Error (''Failed to fetch wasm from '' @ href targetUrl @ '': '' @
                                       status response @ '' '' @ statusText response)))))"

text \<open>\<open>bufferSourceToUint8Array\<close>, lines 453-466.\<close>

definition bufferSourceToUint8Array :: "buffer_source \<Rightarrow> exn + byte list" where
  "bufferSourceToUint8Array src =
     (case src of
        ArrayBuffer bs \<Rightarrow> Inr bs
      | ArrayBufferView buf byteOffset byteLength \<Rightarrow> Inr (take byteLength (drop byteOffset buf))
      | NotBufferSource \<Rightarrow> Inl (TypeError ''Unsupported BufferSource value''))"

text \<open>
  \<open>instantiateOrbit\<close>, lines 353-384. \<open>instance_of\<close> is the test
  \<open>"instance" in result\<close> of lines 372-374 and 381-383.
\<close>

definition instance_of :: "'c instantiated \<Rightarrow> 'c wasm_instance" where
  "instance_of r = (case r of WithInstance i \<Rightarrow> i | BareInstance i \<Rightarrow> i)"

definition instantiate_from_bytes ::
  "('m, 'c) wasm_env \<Rightarrow> exn + byte list \<Rightarrow> wasm_imports \<Rightarrow> exn + 'c wasm_instance" where
  "instantiate_from_bytes W bytes imps =
     (case bytes of
        Inl e \<Rightarrow> Inl e
      | Inr bs \<Rightarrow>
          (case instantiate_bytes W bs imps of
             Inl e \<Rightarrow> Inl e
           | Inr r \<Rightarrow> Inr (instance_of r)))"

definition imports_of :: "('m, 'c) OrbitInitOptions option \<Rightarrow> wasm_imports" where
  "imports_of options =
     (case options of
        None \<Rightarrow> []
      | Some opts \<Rightarrow> (case imports_opt opts of None \<Rightarrow> [] | Some i \<Rightarrow> i))"

definition instantiateOrbit ::
  "('m, 'c) wasm_env \<Rightarrow> ('m, 'c) OrbitInitOptions option \<Rightarrow> exn + 'c wasm_instance" where
  "instantiateOrbit W options =
     (case options of
        None \<Rightarrow> instantiate_from_bytes W (loadWasmBytes W None) (imports_of options)
      | Some opts \<Rightarrow>
          (case instantiate opts of
             Some hook \<Rightarrow> hook (imports_of options)
           | None \<Rightarrow>
               (case module opts of
                  Some m \<Rightarrow> instantiate_module W m (imports_of options)
                | None \<Rightarrow>
                    (case binary opts of
                       Some b \<Rightarrow>
                         instantiate_from_bytes W (bufferSourceToUint8Array b) (imports_of options)
                     | None \<Rightarrow>
                         instantiate_from_bytes W (loadWasmBytes W (url_opt opts))
                           (imports_of options)))))"

text \<open>
  \<open>createOrbit\<close>, lines 344-351: the entry points of the validated instance and a new
  \<open>OrbitCore\<close> on it, with no view cached.
\<close>

definition new_OrbitCore :: "'c world \<Rightarrow> 'c OrbitCore" where
  "new_OrbitCore w = \<lparr>cachedView = None, cachedU8 = None, inst = w, trace = []\<rparr>"

definition createOrbit ::
  "('m, 'c) wasm_env \<Rightarrow> ('m, 'c) OrbitInitOptions option \<Rightarrow> exn + 'c OrbitExports \<times> 'c OrbitCore" where
  "createOrbit W options =
     (case instantiateOrbit W options of
        Inl e \<Rightarrow> Inl e
      | Inr i \<Rightarrow>
          (case validateExports (exports_object i) of
             Inl e \<Rightarrow> Inl e
           | Inr u \<Rightarrow> Inr (entry_points i, new_OrbitCore (initial_state i))))"

subsection \<open>The structured error of the specification\<close>

text \<open>
  The specification's shape of a structured error, in its words: an object with a string
  \<open>kind\<close>, a string \<open>message\<close> and a \<open>span\<close> that is an object with the unsigned
  integers \<open>start\<close> and \<open>end\<close>.
\<close>

definition is_uint :: "js \<Rightarrow> bool" where
  "is_uint v =
     (case v of
        JNum t \<Rightarrow> (if t = [] then False else list_all (\<lambda>c. c \<in> set ''0123456789'') t)
      | JUndefined \<Rightarrow> False | JNull \<Rightarrow> False | JBool b \<Rightarrow> False | JStr t \<Rightarrow> False
      | JArr xs \<Rightarrow> False | JObj kvs \<Rightarrow> False)"

definition is_string :: "js \<Rightarrow> bool" where
  "is_string v =
     (case v of
        JStr t \<Rightarrow> True
      | JUndefined \<Rightarrow> False | JNull \<Rightarrow> False | JBool b \<Rightarrow> False | JNum t \<Rightarrow> False
      | JArr xs \<Rightarrow> False | JObj kvs \<Rightarrow> False)"

definition field :: "js \<Rightarrow> string \<Rightarrow> js" where
  "field v k =
     (case v of
        JObj kvs \<Rightarrow> (case map_of kvs k of None \<Rightarrow> JUndefined | Some x \<Rightarrow> x)
      | JUndefined \<Rightarrow> JUndefined | JNull \<Rightarrow> JUndefined | JBool b \<Rightarrow> JUndefined
      | JNum t \<Rightarrow> JUndefined | JStr t \<Rightarrow> JUndefined | JArr xs \<Rightarrow> JUndefined)"

definition structured_error :: "js \<Rightarrow> bool" where
  "structured_error v =
     (is_string (field v ''kind'') \<and> is_string (field v ''message'') \<and>
      is_uint (field (field v ''span'') ''start'') \<and> is_uint (field (field v ''span'') ''end''))"

subsection \<open>A module, a platform and a host to run the bridge on\<close>

text \<open>
  A small module for the examples. Its allocator hands out the memory upwards from the
  address in \<open>core\<close> and answers 0 when the memory is used up; its deallocator
  overwrites what is released with the byte 255. The entry point \<open>demo_entry\<close> puts a
  payload into a buffer of its own, writes the descriptor of that buffer into the result
  slot, grows the memory by 16 bytes (so that the buffer object is a new one) and then
  returns the status, or traps. Three variants misbehave: the deallocator of
  \<open>wedged_exports\<close> traps, the allocator of \<open>slot_trap_exports\<close> traps when it is
  asked for 12 bytes, and the allocator of \<open>far_exports\<close> answers the address 100,
  which is beyond the 48 bytes of the memory.
\<close>

definition poke :: "int \<Rightarrow> byte list \<Rightarrow> byte list \<Rightarrow> byte list" where
  "poke p bs m = take (nat p) m @ bs @ drop (nat p + length bs) m"

definition le_bytes :: "int \<Rightarrow> byte list" where
  "le_bytes x =
     [word_of_int x, word_of_int (x div 256), word_of_int (x div 65536),
      word_of_int (x div 16777216)]"

definition demo_alloc :: "int \<Rightarrow> int world \<Rightarrow> (exn + int) \<times> int world" where
  "demo_alloc n w =
     (if int (length (mem w)) < core w + n then (Inr 0, w)
      else (Inr (core w), w\<lparr>core := core w + n\<rparr>))"

definition demo_dealloc :: "int \<Rightarrow> int \<Rightarrow> int \<Rightarrow> int world \<Rightarrow> (exn + unit) \<times> int world" where
  "demo_dealloc p l c w = (Inr (), w\<lparr>mem := poke p (replicate (nat c) 255) (mem w)\<rparr>)"

definition demo_entry ::
  "int \<Rightarrow> byte list \<Rightarrow> bool \<Rightarrow> int \<Rightarrow> int \<Rightarrow> int \<Rightarrow> int world \<Rightarrow> (exn + int) \<times> int world" where
  "demo_entry st payload traps sp sl rp w =
     (case demo_alloc (int (length payload)) w of
        (Inl e, w1) \<Rightarrow> (Inl e, w1)
      | (Inr p, w1) \<Rightarrow>
          (if traps then Inl (Trap ''unreachable'') else Inr st,
           w1\<lparr>buf_id := Suc (buf_id w1),
              mem := poke rp (le_bytes p @ le_bytes (int (length payload)) @
                              le_bytes (int (length payload)))
                       (poke p payload (mem w1)) @ replicate 16 0\<rparr>))"

definition demo_exports :: "int OrbitExports" where
  "demo_exports =
     \<lparr>orbit_alloc = demo_alloc, orbit_dealloc = demo_dealloc,
      orbit_version = (\<lambda>rp. demo_entry 0 (map of_char ''0.1.0'') False 0 0 rp),
      orbit_parse = demo_entry 1 (map of_char ''{}'') False,
      orbit_evaluate = demo_entry 0 (map of_char ''{}'') False\<rparr>"

definition wedged_exports :: "int OrbitExports" where
  "wedged_exports = demo_exports\<lparr>orbit_dealloc := (\<lambda>p l c w. (Inl (Trap ''heap corrupted''), w))\<rparr>"

definition slot_trap_exports :: "int OrbitExports" where
  "slot_trap_exports =
     demo_exports\<lparr>orbit_alloc :=
       (\<lambda>n w. if n = 12 then (Inl (Trap ''unreachable''), w) else demo_alloc n w)\<rparr>"

definition far_exports :: "int OrbitExports" where
  "far_exports = demo_exports\<lparr>orbit_alloc := (\<lambda>n w. (Inr 100, w))\<rparr>"

definition demo_world :: "int world" where
  "demo_world = \<lparr>buf_id = 0, mem = replicate 48 0, core = 16\<rparr>"

definition demo_core :: "int OrbitCore" where
  "demo_core = \<lparr>cachedView = None, cachedU8 = None, inst = demo_world, trace = []\<rparr>"

text \<open>
  A platform for the examples. Text is decoded and encoded byte by byte, which is UTF-8
  on ASCII text. \<open>json_parse_text\<close> reads the JSON grammar (objects, arrays, strings
  with the one-letter escapes, numbers, the three literals; a repeated key keeps its last
  value) on texts without \<open>u\<close> escapes, and stands for \<open>JSON.parse\<close> on the texts of
  the examples. A number is printed as its token, which is right for an integer in
  plain decimal form.
\<close>

definition json_space :: "char \<Rightarrow> bool" where
  "json_space c = (c \<in> set [CHR 0x20, CHR 0x09, CHR 0x0A, CHR 0x0D])"

definition is_digit :: "char \<Rightarrow> bool" where
  "is_digit c = (c \<in> set ''0123456789'')"

definition unescape :: "char \<Rightarrow> char option" where
  "unescape c =
     map_of [(CHR 0x22, CHR 0x22), (CHR 0x5C, CHR 0x5C), (CHR ''/'', CHR ''/''),
             (CHR ''b'', CHR 0x08), (CHR ''f'', CHR 0x0C), (CHR ''n'', CHR 0x0A),
             (CHR ''r'', CHR 0x0D), (CHR ''t'', CHR 0x09)] c"

fun parse_chars :: "string \<Rightarrow> string \<Rightarrow> (string \<times> string) option" where
  "parse_chars acc [] = None"
| "parse_chars acc [c] = (if c = CHR 0x22 then Some (rev acc, []) else None)"
| "parse_chars acc (c # d # cs) =
     (if c = CHR 0x22 then Some (rev acc, d # cs)
      else if c = CHR 0x5C then
        (case unescape d of None \<Rightarrow> None | Some u \<Rightarrow> parse_chars (u # acc) cs)
      else if (of_char c :: nat) < 32 then None
      else parse_chars (c # acc) (d # cs))"

definition parse_digits :: "string \<Rightarrow> (string \<times> string) option" where
  "parse_digits s = (if takeWhile is_digit s = [] then None else Some (takeWhile is_digit s, dropWhile is_digit s))"

definition parse_int_part :: "string \<Rightarrow> (string \<times> string) option" where
  "parse_int_part s =
     (case s of
        [] \<Rightarrow> None
      | c # cs \<Rightarrow> if c = CHR ''0'' then Some ([c], cs) else parse_digits s)"

definition parse_frac :: "string \<Rightarrow> (string \<times> string) option" where
  "parse_frac s =
     (case s of
        [] \<Rightarrow> Some ([], s)
      | c # cs \<Rightarrow>
          if c = CHR ''.'' then map_option (\<lambda>(d, r). (c # d, r)) (parse_digits cs)
          else Some ([], s))"

definition parse_exp :: "string \<Rightarrow> (string \<times> string) option" where
  "parse_exp s =
     (case s of
        [] \<Rightarrow> Some ([], s)
      | c # cs \<Rightarrow>
          if c = CHR ''e'' \<or> c = CHR ''E'' then
            (case cs of
               [] \<Rightarrow> None
             | g # gs \<Rightarrow>
                 if g = CHR ''+'' \<or> g = CHR ''-''
                 then map_option (\<lambda>(d, r). (c # g # d, r)) (parse_digits gs)
                 else map_option (\<lambda>(d, r). (c # d, r)) (parse_digits cs))
          else Some ([], s))"

definition parse_number :: "string \<Rightarrow> (string \<times> string) option" where
  "parse_number s =
     (case (case s of [] \<Rightarrow> ([], s) | c # cs \<Rightarrow> if c = CHR ''-'' then ([c], cs) else ([], s)) of
        (sg, s1) \<Rightarrow>
          (case parse_int_part s1 of
             None \<Rightarrow> None
           | Some (i, s2) \<Rightarrow>
               (case parse_frac s2 of
                  None \<Rightarrow> None
                | Some (f, s3) \<Rightarrow>
                    (case parse_exp s3 of
                       None \<Rightarrow> None
                     | Some (e, s4) \<Rightarrow> Some (sg @ i @ f @ e, s4)))))"

fun set_prop :: "string \<Rightarrow> js \<Rightarrow> (string \<times> js) list \<Rightarrow> (string \<times> js) list" where
  "set_prop k v [] = [(k, v)]"
| "set_prop k v ((k', v') # kvs) = (if k' = k then (k, v) # kvs else (k', v') # set_prop k v kvs)"

fun parse_value :: "nat \<Rightarrow> string \<Rightarrow> (js \<times> string) option"
  and parse_elements :: "nat \<Rightarrow> js list \<Rightarrow> string \<Rightarrow> (js \<times> string) option"
  and parse_members :: "nat \<Rightarrow> (string \<times> js) list \<Rightarrow> string \<Rightarrow> (js \<times> string) option" where
  "parse_value 0 s = None"
| "parse_value (Suc n) s =
     (case dropWhile json_space s of
        [] \<Rightarrow> None
      | c # cs \<Rightarrow>
          if c = CHR ''{'' then
            (case dropWhile json_space cs of
               [] \<Rightarrow> None
             | d # ds \<Rightarrow> if d = CHR ''}'' then Some (JObj [], ds) else parse_members n [] cs)
          else if c = CHR ''['' then
            (case dropWhile json_space cs of
               [] \<Rightarrow> None
             | d # ds \<Rightarrow> if d = CHR '']'' then Some (JArr [], ds) else parse_elements n [] cs)
          else if c = CHR 0x22 then map_option (\<lambda>(t, r). (JStr t, r)) (parse_chars [] cs)
          else if startsWith (c # cs) ''true'' then Some (JBool True, drop 4 (c # cs))
          else if startsWith (c # cs) ''false'' then Some (JBool False, drop 5 (c # cs))
          else if startsWith (c # cs) ''null'' then Some (JNull, drop 4 (c # cs))
          else map_option (\<lambda>(t, r). (JNum t, r)) (parse_number (c # cs)))"
| "parse_elements 0 acc s = None"
| "parse_elements (Suc n) acc s =
     (case parse_value n s of
        None \<Rightarrow> None
      | Some (v, r) \<Rightarrow>
          (case dropWhile json_space r of
             [] \<Rightarrow> None
           | c # cs \<Rightarrow>
               if c = CHR '','' then parse_elements n (v # acc) cs
               else if c = CHR '']'' then Some (JArr (rev (v # acc)), cs)
               else None))"
| "parse_members 0 acc s = None"
| "parse_members (Suc n) acc s =
     (case dropWhile json_space s of
        [] \<Rightarrow> None
      | q # qs \<Rightarrow>
          if q = CHR 0x22 then
            (case parse_chars [] qs of
               None \<Rightarrow> None
             | Some (k, r) \<Rightarrow>
                 (case dropWhile json_space r of
                    [] \<Rightarrow> None
                  | c # cs \<Rightarrow>
                      if c = CHR '':'' then
                        (case parse_value n cs of
                           None \<Rightarrow> None
                         | Some (v, r') \<Rightarrow>
                             (case dropWhile json_space r' of
                                [] \<Rightarrow> None
                              | d # ds \<Rightarrow>
                                  if d = CHR '','' then parse_members n (set_prop k v acc) ds
                                  else if d = CHR ''}'' then Some (JObj (set_prop k v acc), ds)
                                  else None))
                      else None))
          else None)"

definition json_parse_text :: "string \<Rightarrow> js option" where
  "json_parse_text s =
     (case parse_value (Suc (length s)) s of
        None \<Rightarrow> None
      | Some (v, r) \<Rightarrow> if dropWhile json_space r = [] then Some v else None)"

definition demo_platform :: platform where
  "demo_platform =
     \<lparr>text_decode = map (\<lambda>b. char_of (unat b)), text_encode = map of_char,
      json_parse = json_parse_text, number_to_string = (\<lambda>t. t)\<rparr>"

text \<open>
  Two hosts: one with a file system, one without. The file system holds the file
  \<open>/tmp/config.orbit\<close>, which is found under its path and under its \<open>file:\<close> URL, and
  the file \<open>/tmp/locked.orbit\<close>, which exists and cannot be read. It also holds a
  file under the relative path \<open>file://a b/c.orbit\<close>, a text that starts with \<open>file:\<close>
  and that the constructor \<open>URL\<close> refuses for its host. \<open>file_url\<close> stands
  for the constructor \<open>URL\<close> on the texts of the examples: it accepts what starts with
  \<open>file:///\<close>. \<open>trim_ws\<close> stands for \<open>String.prototype.trim\<close>: it strips, at both
  ends, the white space and the line terminators that an 8-bit character can hold.
\<close>

definition demo_fs :: node_fs where
  "demo_fs =
     \<lparr>existsSync =
        (\<lambda>t. Inr (t \<in> set [PathTarget ''/tmp/config.orbit'', PathTarget ''/tmp/locked.orbit'',
                             PathTarget ''file://a b/c.orbit'',
                             UrlTarget \<lparr>protocol = ''file:'', href = ''file:///tmp/config.orbit''\<rparr>])),
      readFileSync =
        (\<lambda>t enc.
           if t \<in> set [PathTarget ''/tmp/config.orbit'', PathTarget ''file://a b/c.orbit'',
                       UrlTarget \<lparr>protocol = ''file:'', href = ''file:///tmp/config.orbit''\<rparr>]
           then Inr ''app { name: 1 }''
           else if t = PathTarget ''/tmp/locked.orbit'' then Inl (Error ''EACCES'')
           else Inl (Error ''ENOENT''))\<rparr>"

definition file_url :: "string \<Rightarrow> url option" where
  "file_url s = (if startsWith s ''file:///'' then Some \<lparr>protocol = ''file:'', href = s\<rparr> else None)"

definition is_space :: "char \<Rightarrow> bool" where
  "is_space c =
     (c \<in> set [CHR 0x09, CHR 0x0A, CHR 0x0B, CHR 0x0C, CHR 0x0D, CHR 0x20, CHR 0xA0])"

definition trim_ws :: "string \<Rightarrow> string" where
  "trim_ws s = rev (dropWhile is_space (rev (dropWhile is_space s)))"

definition node_env :: host_env where
  "node_env = \<lparr>nodeFs = Some demo_fs, new_URL = file_url, trim = trim_ws\<rparr>"

definition browser_env :: host_env where
  "browser_env = \<lparr>nodeFs = None, new_URL = file_url, trim = trim_ws\<rparr>"

text \<open>
  Instances for the examples: \<open>demo_instance n\<close> exports everything required and starts
  with \<open>n\<close> as the identity of its buffer; \<open>instance_without k\<close> lacks the export \<open>k\<close>.
\<close>

definition demo_instance :: "nat \<Rightarrow> int wasm_instance" where
  "demo_instance n =
     \<lparr>exports_object =
        map_of (map (\<lambda>k. (k, if k = ''memory'' then MemoryExport else FunctionExport)) required),
      entry_points = demo_exports,
      initial_state = demo_world\<lparr>buf_id := n\<rparr>\<rparr>"

definition instance_without :: "string \<Rightarrow> int wasm_instance" where
  "instance_without k =
     (demo_instance 0)\<lparr>exports_object :=
        map_of (map (\<lambda>k. (k, if k = ''memory'' then MemoryExport else FunctionExport))
                  (filter (\<lambda>x. x \<noteq> k) required))\<rparr>"

definition demo_wasm_env :: "(nat, int) wasm_env" where
  "demo_wasm_env =
     \<lparr>isNodeLike = True,
      DEFAULT_WASM_URL = \<lparr>protocol = ''file:'', href = ''file:///pkg/wasm/orbit_core.wasm''\<rparr>,
      URL_new = file_url,
      URL_new_base = (\<lambda>s b. None),
      readFile = (\<lambda>u. if href u = ''file:///pkg/wasm/orbit_core.wasm''
                       then Inr [0, 97, 115, 109] else Inl (Error ''ENOENT'')),
      fetch = None,
      instantiate_module = (\<lambda>m i. Inr (demo_instance m)),
      instantiate_bytes = (\<lambda>bs i. Inr (WithInstance (demo_instance (length bs))))\<rparr>"

text \<open>
  The text of a structured error as the core reports it, and a host whose module has
  room for it.
\<close>

definition error_text :: string where
  "error_text =
     ''{\"kind\":\"Parse\",\"message\":\"unexpected end of input\",\"span\":{\"start\":5,\"end\":5}}''"

definition roomy_core :: "int OrbitCore" where
  "roomy_core = demo_core\<lparr>inst := demo_world\<lparr>mem := replicate 160 0\<rparr>\<rparr>"

section \<open>Properties\<close>

subsection \<open>What each step adds to the record of calls\<close>

lemma releases_append: "releases st (xs @ ys) = releases st xs @ releases st ys"
  by (induction st xs rule: releases.induct) simp_all

lemma allocations_append: "allocations st (xs @ ys) = allocations st xs @ allocations st ys"
  by (induction st xs rule: allocations.induct) simp_all

lemma stale_accesses_append: "stale_accesses (xs @ ys) = stale_accesses xs @ stale_accesses ys"
  by (induction xs rule: stale_accesses.induct) simp_all

lemma record_event_simps:
  "trace (record_event e h) = trace h @ [e]"
  "inst (record_event e h) = inst h"
  "cachedU8 (record_event e h) = cachedU8 h"
  "cachedView (record_event e h) = cachedView h"
  by (simp_all add: record_event_def)

lemma alloc_trace:
  "alloc ex st n h = (Inr p, h') \<Longrightarrow>
     trace h' = trace h @ [Alloc st n p] \<and> orbit_alloc ex n (inst h) = (Inr p, inst h')"
  by (auto simp: alloc_def record_event_def split: prod.splits sum.splits)

lemma alloc_trap_trace:
  "alloc ex st n h = (Inl e, h') \<Longrightarrow> trace h' = trace h @ [AllocTrap st n]"
  by (auto simp: alloc_def record_event_def split: prod.splits sum.splits)

lemma dealloc_props:
  "dealloc ex st p l c h = (r, h') \<Longrightarrow>
     trace h' = trace h @ [Dealloc st p l c] \<and> orbit_dealloc ex p l c (inst h) = (r, inst h')"
  by (auto simp: dealloc_def record_event_def split: prod.splits)

lemma getUint8Memory_props:
  "getUint8Memory h = (v, h') \<Longrightarrow>
     v = buf_id (inst h) \<and> trace h' = trace h \<and> inst h' = inst h \<and> cachedU8 h' = Some (buf_id (inst h))"
  by (auto simp: getUint8Memory_def split: option.splits if_splits)

lemma getDataView_props:
  "getDataView h = (v, h') \<Longrightarrow>
     v = buf_id (inst h) \<and> trace h' = trace h \<and> inst h' = inst h \<and> cachedView h' = Some (buf_id (inst h))"
  by (auto simp: getDataView_def split: option.splits if_splits)

lemma u8_set_trace:
  "u8_set v bs off h = (r, h') \<Longrightarrow> trace h' = trace h @ [Access v (buf_id (inst h))]"
  by (auto simp: u8_set_def Let_def record_event_def split: if_splits)

lemma dv_getUint32_props:
  "dv_getUint32 v off h = (r, h') \<Longrightarrow>
     trace h' = trace h @ [Access v (buf_id (inst h))] \<and> inst h' = inst h"
  by (auto simp: dv_getUint32_def Let_def record_event_def split: if_splits)

lemma u8_slice_props:
  "u8_slice v a b h = (r, h') \<Longrightarrow>
     trace h' = trace h @ [Access v (buf_id (inst h))] \<and> inst h' = inst h"
  by (auto simp: u8_slice_def Let_def record_event_def split: if_splits)

lemma writeInput_trace:
  "writeInput ex bytes h = (r, h') \<Longrightarrow>
     \<exists>evs. trace h' = trace h @ evs \<and> stale_accesses evs = [] \<and>
       (\<forall>st. releases st evs = []) \<and> allocations ResultSlot evs = [] \<and>
       (\<forall>sl. r = Inr sl \<longrightarrow>
          allocations InputBuf evs = (if ptr sl = 0 then [] else [(len sl, ptr sl)]))"
  apply (cases bytes)
   apply (simp add: writeInput_def zero_slice_def)
   apply fastforce
  apply (simp add: writeInput_def zero_slice_def split: if_splits prod.splits sum.splits)
    apply fastforce
   apply (auto dest!: alloc_trace alloc_trap_trace getUint8Memory_props u8_set_trace)
  done

lemma readSlice_trace:
  "readSlice p h = (r, h') \<Longrightarrow>
     \<exists>evs. trace h' = trace h @ evs \<and> stale_accesses evs = [] \<and>
       (\<forall>st. releases st evs = []) \<and> (\<forall>st. allocations st evs = []) \<and> inst h' = inst h"
  apply (simp add: readSlice_def split: prod.splits sum.splits)
  apply (auto dest!: getDataView_props dv_getUint32_props)
  done

lemma copySlice_trace:
  "copySlice sl h = (r, h') \<Longrightarrow>
     \<exists>evs. trace h' = trace h @ evs \<and> stale_accesses evs = [] \<and>
       (\<forall>st. releases st evs = []) \<and> (\<forall>st. allocations st evs = []) \<and> inst h' = inst h"
  apply (simp add: copySlice_def split: prod.splits sum.splits if_splits)
  apply (auto dest!: getUint8Memory_props u8_slice_props)
  done

lemma readSlice_fst_cong:
  "inst h = inst g \<Longrightarrow> fst (readSlice p h) = fst (readSlice p g)"
  by (simp add: readSlice_def getDataView_def dv_getUint32_def Let_def record_event_def
        split: option.splits)

lemma copySlice_ok: "\<exists>bs h'. copySlice sl h = (Inr bs, h')"
  by (simp add: copySlice_def getUint8Memory_def u8_slice_def Let_def split: option.splits)

lemma freeBuffer_trace:
  "freeBuffer ex sl h = (r, h') \<Longrightarrow>
     trace h' =
       trace h @ (if ptr sl = 0 then [] else [Dealloc ResultBuf (ptr sl) (len sl) (cap sl)])"
  by (auto simp: freeBuffer_def dest: dealloc_props split: if_splits)

lemma freeInput_props:
  "freeInput ex sl h = (r, h') \<Longrightarrow>
     trace h' =
       trace h @ (if ptr sl = 0 then [] else [Dealloc InputBuf (ptr sl) (len sl) (cap sl)]) \<and>
     (if ptr sl = 0 then r = Inr () \<and> inst h' = inst h
      else orbit_dealloc ex (ptr sl) (len sl) (cap sl) (inst h) = (r, inst h'))"
  by (auto simp: freeInput_def dest: dealloc_props split: if_splits)

lemma invoke_try_trace:
  assumes "invoke_try ex call inp rsp h = (r, h')"
      and "call (ptr inp) (len inp) rsp (inst h) = (c, w)"
  shows "\<exists>evs. trace h' = trace h @ evs \<and> stale_accesses evs = [] \<and>
           releases InputBuf evs = [] \<and> releases ResultSlot evs = [] \<and>
           (\<forall>st. allocations st evs = []) \<and>
           releases ResultBuf evs = result_release c (fst (readSlice rsp (h\<lparr>inst := w\<rparr>)))"
proof (cases c)
  case (Inl e)
  with assms show ?thesis
    by (auto simp: invoke_try_def record_event_def result_release_def)
next
  case (Inr st)
  let ?g = "record_event (EntryCall (ptr inp) (len inp) rsp) (h\<lparr>inst := w\<rparr>)"
  obtain d h1 where rd: "readSlice rsp ?g = (d, h1)" by (cases "readSlice rsp ?g")
  have dfst: "fst (readSlice rsp (h\<lparr>inst := w\<rparr>)) = d"
    using readSlice_fst_cong [of "h\<lparr>inst := w\<rparr>" ?g rsp] rd by (simp add: record_event_def)
  from readSlice_trace [OF rd] obtain e1 where
    e1: "trace h1 = trace ?g @ e1" "stale_accesses e1 = []" "\<forall>st. releases st e1 = []"
        "\<forall>st. allocations st e1 = []"
    by blast
  show ?thesis
  proof (cases d)
    case (Inl e)
    with assms Inr rd e1 dfst show ?thesis
      by (auto simp: invoke_try_def record_event_def result_release_def)
  next
    case (Inr rs)
    obtain bs h2 where cp: "copySlice rs h1 = (Inr bs, h2)" using copySlice_ok by blast
    from copySlice_trace [OF cp] obtain e2 where
      e2: "trace h2 = trace h1 @ e2" "stale_accesses e2 = []" "\<forall>st. releases st e2 = []"
          "\<forall>st. allocations st e2 = []"
      by blast
    obtain u h3 where fb: "freeBuffer ex rs h2 = (u, h3)" by (cases "freeBuffer ex rs h2")
    have r: "h' = h3"
      using assms \<open>c = Inr st\<close> rd Inr cp fb by (cases u) (simp_all add: invoke_try_def)
    show ?thesis
      using e1 e2 dfst Inr \<open>c = Inr st\<close> freeBuffer_trace [OF fb]
      by (simp add: r record_event_def result_release_def releases_append
            stale_accesses_append allocations_append)
  qed
qed

lemma invoke_snd:
  "snd (invoke P ex input call onOk h) = snd (invoke_boundary ex input call h)"
  by (simp add: invoke_def split: prod.splits sum.splits)

lemma invoke_fst_error:
  "fst (invoke_boundary ex input call h) = Inl e \<Longrightarrow> fst (invoke P ex input call onOk h) = Inl e"
  by (cases "invoke_boundary ex input call h") (simp add: invoke_def)

lemma invoke_boundary_finally:
  assumes wi: "writeInput ex input h = (Inr inp, h1)"
      and al: "alloc ex ResultSlot SLICE_STRUCT_SIZE h1 = (Inr rsp, h2)"
      and nz: "rsp \<noteq> 0"
      and tr: "invoke_try ex call inp rsp h2 = (r, h3)"
      and dl: "dealloc ex ResultSlot rsp SLICE_STRUCT_SIZE SLICE_STRUCT_SIZE h3 = (d, h4)"
      and fi: "freeInput ex inp h4 = (f, h5)"
  shows "invoke_boundary ex input call h =
           (case d of
              Inl e \<Rightarrow> (Inl e, h4)
            | Inr u \<Rightarrow> (case f of Inl e \<Rightarrow> (Inl e, h5) | Inr v \<Rightarrow> (r, h5)))"
  using assms by (simp add: invoke_boundary_def split: sum.splits)

lemma invoke_boundary_noslot:
  assumes wi: "writeInput ex input h = (Inr inp, h1)"
      and al: "alloc ex ResultSlot SLICE_STRUCT_SIZE h1 = (Inr 0, h2)"
      and fi: "freeInput ex inp h2 = (f, h3)"
  shows "invoke_boundary ex input call h =
           (case f of
              Inl e \<Rightarrow> (Inl e, h3)
            | Inr u \<Rightarrow> (Inl (Error ''orbit wasm could not allocate result slice''), h3))"
  using assms by (simp add: invoke_boundary_def split: sum.splits)

lemma invoke_boundary_events:
  assumes wi: "writeInput ex input h = (Inr inp, h1)"
      and al: "alloc ex ResultSlot SLICE_STRUCT_SIZE h1 = (Inr rsp, h2)"
      and cl: "call (ptr inp) (len inp) rsp (inst h2) = (c, w)"
  shows "\<exists>evs. trace (snd (invoke_boundary ex input call h)) = trace h @ evs \<and>
           stale_accesses evs = [] \<and>
           allocations InputBuf evs = (if ptr inp = 0 then [] else [(len inp, ptr inp)]) \<and>
           allocations ResultSlot evs = [(SLICE_STRUCT_SIZE, rsp)] \<and>
           releases ResultSlot evs =
             (if rsp = 0 then [] else [(rsp, SLICE_STRUCT_SIZE, SLICE_STRUCT_SIZE)]) \<and>
           releases ResultBuf evs =
             (if rsp = 0 then []
              else result_release c (fst (readSlice rsp (h2\<lparr>inst := w\<rparr>))))"
proof -
  from writeInput_trace [OF wi] obtain e1 where
    e1: "trace h1 = trace h @ e1" "stale_accesses e1 = []" "\<forall>st. releases st e1 = []"
        "allocations ResultSlot e1 = []"
        "allocations InputBuf e1 = (if ptr inp = 0 then [] else [(len inp, ptr inp)])"
    by blast
  have e2: "trace h2 = trace h1 @ [Alloc ResultSlot SLICE_STRUCT_SIZE rsp]"
    using alloc_trace [OF al] by simp
  show ?thesis
  proof (cases "rsp = 0")
    case True
    obtain f h3 where fi: "freeInput ex inp h2 = (f, h3)" by (cases "freeInput ex inp h2")
    have "snd (invoke_boundary ex input call h) = h3"
      using invoke_boundary_noslot [OF wi al [unfolded True] fi, of call] by (cases f) simp_all
    then show ?thesis
      using e1 e2 True freeInput_props [OF fi]
      by (simp add: releases_append stale_accesses_append allocations_append)
  next
    case False
    obtain r h3 where tr: "invoke_try ex call inp rsp h2 = (r, h3)"
      by (cases "invoke_try ex call inp rsp h2")
    from invoke_try_trace [where call = call, OF tr cl] obtain e3 where
      e3: "trace h3 = trace h2 @ e3" "stale_accesses e3 = []" "releases InputBuf e3 = []"
          "releases ResultSlot e3 = []" "\<forall>st. allocations st e3 = []"
          "releases ResultBuf e3 = result_release c (fst (readSlice rsp (h2\<lparr>inst := w\<rparr>)))"
      by blast
    obtain d h4 where
      dl: "dealloc ex ResultSlot rsp SLICE_STRUCT_SIZE SLICE_STRUCT_SIZE h3 = (d, h4)"
      by (cases "dealloc ex ResultSlot rsp SLICE_STRUCT_SIZE SLICE_STRUCT_SIZE h3")
    obtain f h5 where fi: "freeInput ex inp h4 = (f, h5)" by (cases "freeInput ex inp h4")
    have t4: "trace h4 = trace h3 @ [Dealloc ResultSlot rsp SLICE_STRUCT_SIZE SLICE_STRUCT_SIZE]"
      using dealloc_props [OF dl] by simp
    have t5: "trace h5 =
        trace h4 @ (if ptr inp = 0 then [] else [Dealloc InputBuf (ptr inp) (len inp) (cap inp)])"
      using freeInput_props [OF fi] by simp
    have "snd (invoke_boundary ex input call h) = h4 \<or> snd (invoke_boundary ex input call h) = h5"
      using invoke_boundary_finally [where call = call, OF wi al False tr dl fi]
      by (cases d; cases f) simp_all
    then show ?thesis
      using e1 e2 e3 t4 t5 False
      by (auto simp: releases_append stale_accesses_append allocations_append)
  qed
qed

lemma invoke_boundary_stale:
  "stale_accesses (trace (snd (invoke_boundary ex input call h))) = stale_accesses (trace h)"
proof -
  obtain r h1 where wi: "writeInput ex input h = (r, h1)" by (cases "writeInput ex input h")
  from writeInput_trace [OF wi] obtain e1 where
    e1: "trace h1 = trace h @ e1" "stale_accesses e1 = []" by blast
  show ?thesis
  proof (cases r)
    case (Inl e)
    have "snd (invoke_boundary ex input call h) = h1"
      using wi Inl by (simp add: invoke_boundary_def)
    with e1 show ?thesis by (simp add: stale_accesses_append)
  next
    case (Inr inp)
    obtain a h2 where al: "alloc ex ResultSlot SLICE_STRUCT_SIZE h1 = (a, h2)"
      by (cases "alloc ex ResultSlot SLICE_STRUCT_SIZE h1")
    show ?thesis
    proof (cases a)
      case (Inl e)
      have "snd (invoke_boundary ex input call h) = h2"
        using wi \<open>r = Inr inp\<close> al Inl by (simp add: invoke_boundary_def)
      with e1 alloc_trap_trace [OF al [unfolded Inl]] show ?thesis
        by (simp add: stale_accesses_append)
    next
      case (Inr rsp)
      obtain c w where cl: "call (ptr inp) (len inp) rsp (inst h2) = (c, w)"
        by (cases "call (ptr inp) (len inp) rsp (inst h2)")
      from invoke_boundary_events
             [where call = call, OF wi [unfolded \<open>r = Inr inp\<close>] al [unfolded Inr] cl]
      show ?thesis by (auto simp: stale_accesses_append)
    qed
  qed
qed

lemma invoke_try_inst:
  assumes c: "call (ptr inp) (len inp) rsp (inst h) = (Inr st, w)"
      and r: "fst (readSlice rsp (h\<lparr>inst := w\<rparr>)) = Inr d"
  shows "inst (snd (invoke_try ex call inp rsp h)) =
           (if ptr d = 0 then w else snd (orbit_dealloc ex (ptr d) (len d) (cap d) w))"
proof -
  let ?g = "record_event (EntryCall (ptr inp) (len inp) rsp) (h\<lparr>inst := w\<rparr>)"
  have ig: "inst ?g = w" by (simp add: record_event_def)
  have "fst (readSlice rsp ?g) = Inr d"
    using readSlice_fst_cong [of ?g "h\<lparr>inst := w\<rparr>" rsp] r ig by simp
  then obtain h1 where rs: "readSlice rsp ?g = (Inr d, h1)"
    by (cases "readSlice rsp ?g") simp
  have i1: "inst h1 = w" using readSlice_trace [OF rs] ig by auto
  obtain bs h2 where cs: "copySlice d h1 = (Inr bs, h2)" using copySlice_ok by blast
  have i2: "inst h2 = w" using copySlice_trace [OF cs] i1 by auto
  obtain q h3 where fb: "freeBuffer ex d h2 = (q, h3)" by (cases "freeBuffer ex d h2")
  have i3: "inst h3 = (if ptr d = 0 then w else snd (orbit_dealloc ex (ptr d) (len d) (cap d) w))"
    using fb i2 by (auto simp: freeBuffer_def dest: dealloc_props split: if_splits)
  show ?thesis using c rs cs fb i3 by (cases q) (simp_all add: invoke_try_def)
qed

subsection \<open>Releases on the exit paths of invoke\<close>

text \<open>
  Claim C1, as amended. On the exit paths of \<open>invoke\<close> where the entry point has
  returned (whatever the status) and the result descriptor has been read, the result
  buffer is released exactly once when the pointer of the descriptor is not 0. Where
  that pointer is 0, and where the entry-point call or the read of the descriptor
  raises, \<open>invoke\<close> makes no release for a result buffer: \<open>freeBuffer\<close> is called in the
  \<open>try\<close>, not in the \<open>finally\<close>. The release is a call of the deallocator of the
  module: the module is, at the end of the \<open>try\<close> block, in the state in which
  \<open>orbit_dealloc\<close>, called with the three fields of the descriptor, has left it.
\<close>

theorem result_buffer_released_when_read:
  assumes "writeInput ex input h = (Inr inp, h1)"
      and "alloc ex ResultSlot SLICE_STRUCT_SIZE h1 = (Inr rsp, h2)"
      and "rsp \<noteq> 0"
      and "call (ptr inp) (len inp) rsp (inst h2) = (c, w)"
  shows "releases ResultBuf (trace (snd (invoke P ex input call onOk h))) =
           releases ResultBuf (trace h) @
           result_release c (fst (readSlice rsp (h2\<lparr>inst := w\<rparr>))) \<and>
         (c = Inr st \<and> fst (readSlice rsp (h2\<lparr>inst := w\<rparr>)) = Inr d \<and> ptr d \<noteq> 0 \<longrightarrow>
            inst (snd (invoke_try ex call inp rsp h2)) =
              snd (orbit_dealloc ex (ptr d) (len d) (cap d) w))"
proof -
  have "releases ResultBuf (trace (snd (invoke P ex input call onOk h))) =
           releases ResultBuf (trace h) @
           result_release c (fst (readSlice rsp (h2\<lparr>inst := w\<rparr>)))"
    using invoke_boundary_events [where call = call, OF assms(1,2,4)] assms(3)
    by (auto simp: invoke_snd releases_append)
  moreover have "inst (snd (invoke_try ex call inp rsp h2)) =
              snd (orbit_dealloc ex (ptr d) (len d) (cap d) w)"
    if "c = Inr st" "fst (readSlice rsp (h2\<lparr>inst := w\<rparr>)) = Inr d" "ptr d \<noteq> 0"
    using invoke_try_inst [where call = call and ex = ex, OF assms(4) [unfolded that(1)] that(2)]
          that(3)
    by simp
  ultimately show ?thesis by blast
qed

text \<open>
  An instance: the entry point answers status 1 with the two bytes of \<open>{}\<close> in a
  buffer at address 31, and that buffer is released once. The deallocator of the
  example module overwrites what it releases with the byte 255, and the two bytes at
  31 have that value at the end of the \<open>try\<close> block.
\<close>

theorem result_buffer_released_when_read_witness:
  "releases ResultBuf
     (trace (snd (invoke demo_platform demo_exports (Some [1, 2, 3])
                    (demo_entry 1 (map of_char ''{}'') False) (bytesToJson demo_platform)
                    demo_core))) = [(31, 2, 2)] \<and>
   take 2 (drop 31 (mem (inst (snd
     (invoke_try demo_exports (demo_entry 1 (map of_char ''{}'') False)
        \<lparr>ptr = 16, len = 3, cap = 3\<rparr> 19
        (snd (alloc demo_exports ResultSlot SLICE_STRUCT_SIZE
           (snd (writeInput demo_exports (Some [1, 2, 3]) demo_core))))))))) = [255, 255]"
proof -
  let ?h1 = "snd (writeInput demo_exports (Some [1, 2, 3]) demo_core)"
  let ?h2 = "snd (alloc demo_exports ResultSlot SLICE_STRUCT_SIZE ?h1)"
  let ?w = "snd (demo_entry 1 (map of_char ''{}'') False 16 3 19 (inst ?h2))"
  let ?d = "\<lparr>ptr = 31, len = 2, cap = 2\<rparr>"
  have a: "writeInput demo_exports (Some [1, 2, 3]) demo_core =
             (Inr \<lparr>ptr = 16, len = 3, cap = 3\<rparr>, ?h1)"
    by code_simp
  have b: "alloc demo_exports ResultSlot SLICE_STRUCT_SIZE ?h1 = (Inr 19, ?h2)"
    by code_simp
  have c: "(19::int) \<noteq> 0" by simp
  have d: "demo_entry 1 (map of_char ''{}'') False (ptr \<lparr>ptr = 16, len = 3, cap = 3\<rparr>)
             (len \<lparr>ptr = 16, len = 3, cap = 3\<rparr>) 19 (inst ?h2) = (Inr 1, ?w)"
    by code_simp
  have e: "result_release (Inr 1) (fst (readSlice 19 (?h2\<lparr>inst := ?w\<rparr>))) = [(31, 2, 2)]"
    by code_simp
  have f: "trace demo_core = []" by (simp add: demo_core_def)
  have g: "fst (readSlice 19 (?h2\<lparr>inst := ?w\<rparr>)) = Inr ?d"
    by code_simp
  have m: "take 2 (drop 31 (mem (snd (orbit_dealloc demo_exports 31 2 2 ?w)))) = [255, 255]"
    by code_simp
  have p: "ptr ?d = 31" "len ?d = 2" "cap ?d = 2" by simp_all
  from result_buffer_released_when_read
    [where call = "demo_entry 1 (map of_char ''{}'') False" and P = demo_platform
       and onOk = "bytesToJson demo_platform" and st = 1 and d = ?d, OF a b c d] e f g m p
  show ?thesis by simp
qed

text \<open>
  The claim as it was stated fails where the entry point raises after it has
  produced its result. Here it has allocated the buffer at 31, put \<open>{}\<close> there and
  written the descriptor (31, 2, 2) into the slot at 19 when it traps: \<open>invoke\<close>
  propagates the trap, the two bytes are still in the memory at 31 afterwards and no
  release was made for them.
\<close>

theorem result_buffer_not_released_counterexample:
  "fst (invoke demo_platform demo_exports (Some [1, 2, 3])
          (demo_entry 0 (map of_char ''{}'') True) (bytesToJson demo_platform) demo_core)
     = Inl (Trap ''unreachable'') \<and>
   fst (readSlice 19
          (demo_core\<lparr>inst := snd (demo_entry 0 (map of_char ''{}'') True 16 3 19
             (inst (snd (alloc demo_exports ResultSlot SLICE_STRUCT_SIZE
                (snd (writeInput demo_exports (Some [1, 2, 3]) demo_core))))))\<rparr>))
     = Inr \<lparr>ptr = 31, len = 2, cap = 2\<rparr> \<and>
   take 2 (drop 31 (mem (inst (snd
      (invoke demo_platform demo_exports (Some [1, 2, 3])
         (demo_entry 0 (map of_char ''{}'') True) (bytesToJson demo_platform) demo_core)))))
     = map of_char ''{}'' \<and>
   releases ResultBuf
     (trace (snd (invoke demo_platform demo_exports (Some [1, 2, 3])
                    (demo_entry 0 (map of_char ''{}'') True) (bytesToJson demo_platform)
                    demo_core))) = []"
  by code_simp

text \<open>
  Claim C2, as amended. The input buffer and the result slot are released on the
  exit paths of \<open>invoke\<close> that \<open>writeInput\<close> has left by returning its descriptor and
  on which the allocator has returned for the slot. Of the calls that \<open>invoke\<close> adds
  to the record, those for the input buffer hold one allocation (none for an absent
  or empty input, whose descriptor has the pointer 0) and those for the 12-byte slot
  hold one allocation and, when it gave a pointer, one release.

  When the allocator answers 0 for the slot, \<open>freeInput\<close> runs: the deallocator of
  the module is called once with the pointer, the length and the capacity of the
  input descriptor, the module is left in the state that call gives, and \<open>invoke\<close>
  throws the error of line 193 when the deallocator has returned.

  When the allocator gave a pointer, the \<open>finally\<close> block calls the deallocator of
  the module on the slot, on the state in which the \<open>try\<close> block has left the module
  (whatever the entry point and the reads have done there: return any status,
  raise). When that call returns, \<open>freeInput\<close> runs as above, on the state the
  release of the slot gives, and an exception of the \<open>try\<close> block is the one that
  \<open>invoke\<close> throws when the deallocator has returned for the input too. When that
  call raises, \<open>invoke\<close> throws what it raised and \<open>freeInput\<close> does not run: no
  release is made for the input buffer.
\<close>

theorem input_and_slot_released:
  assumes wi: "writeInput ex input h = (Inr inp, h1)"
      and al: "alloc ex ResultSlot SLICE_STRUCT_SIZE h1 = (Inr rsp, h2)"
      and tr: "invoke_try ex call inp rsp h2 = (r, h3)"
  shows "\<exists>evs. trace (snd (invoke P ex input call onOk h)) = trace h @ evs \<and>
           allocations InputBuf evs = (if ptr inp = 0 then [] else [(len inp, ptr inp)]) \<and>
           allocations ResultSlot evs = [(12, rsp)] \<and>
           releases ResultSlot evs = (if rsp = 0 then [] else [(rsp, 12, 12)]) \<and>
           (rsp = 0 \<longrightarrow>
              releases InputBuf evs = (if ptr inp = 0 then [] else [(ptr inp, len inp, cap inp)]) \<and>
              inst (snd (invoke P ex input call onOk h)) =
                (if ptr inp = 0 then inst h2
                 else snd (orbit_dealloc ex (ptr inp) (len inp) (cap inp) (inst h2))) \<and>
              (ptr inp = 0 \<or>
               fst (orbit_dealloc ex (ptr inp) (len inp) (cap inp) (inst h2)) = Inr () \<longrightarrow>
                 fst (invoke P ex input call onOk h) =
                   Inl (Error ''orbit wasm could not allocate result slice''))) \<and>
           (rsp \<noteq> 0 \<and> orbit_dealloc ex rsp 12 12 (inst h3) = (Inr (), w) \<longrightarrow>
              releases InputBuf evs = (if ptr inp = 0 then [] else [(ptr inp, len inp, cap inp)]) \<and>
              inst (snd (invoke P ex input call onOk h)) =
                (if ptr inp = 0 then w
                 else snd (orbit_dealloc ex (ptr inp) (len inp) (cap inp) w)) \<and>
              (r = Inl e \<and>
               (ptr inp = 0 \<or>
                fst (orbit_dealloc ex (ptr inp) (len inp) (cap inp) w) = Inr ()) \<longrightarrow>
                 fst (invoke P ex input call onOk h) = Inl e)) \<and>
           (rsp \<noteq> 0 \<and> orbit_dealloc ex rsp 12 12 (inst h3) = (Inl x, w) \<longrightarrow>
              releases InputBuf evs = [] \<and>
              inst (snd (invoke P ex input call onOk h)) = w \<and>
              fst (invoke P ex input call onOk h) = Inl x)"
proof -
  obtain c w0 where cl: "call (ptr inp) (len inp) rsp (inst h2) = (c, w0)"
    by (cases "call (ptr inp) (len inp) rsp (inst h2)")
  from invoke_boundary_events [where call = call, OF wi al cl] obtain evs where
    ev: "trace (snd (invoke_boundary ex input call h)) = trace h @ evs"
        "allocations InputBuf evs = (if ptr inp = 0 then [] else [(len inp, ptr inp)])"
        "allocations ResultSlot evs = [(SLICE_STRUCT_SIZE, rsp)]"
        "releases ResultSlot evs =
           (if rsp = 0 then [] else [(rsp, SLICE_STRUCT_SIZE, SLICE_STRUCT_SIZE)])"
    by blast
  from writeInput_trace [OF wi] obtain e1 where
    e1: "trace h1 = trace h @ e1" "\<forall>st. releases st e1 = []"
    by blast
  have e2: "trace h2 = trace h1 @ [Alloc ResultSlot SLICE_STRUCT_SIZE rsp]"
    using alloc_trace [OF al] by simp
  from invoke_try_trace [where call = call, OF tr cl] obtain e3 where
    e3: "trace h3 = trace h2 @ e3" "releases InputBuf e3 = []"
    by blast
  let ?RI = "if ptr inp = 0 then [] else [(ptr inp, len inp, cap inp)]"
  have zero: "releases InputBuf evs = ?RI \<and>
              inst (snd (invoke_boundary ex input call h)) =
                (if ptr inp = 0 then inst h2
                 else snd (orbit_dealloc ex (ptr inp) (len inp) (cap inp) (inst h2))) \<and>
              (ptr inp = 0 \<or>
               fst (orbit_dealloc ex (ptr inp) (len inp) (cap inp) (inst h2)) = Inr () \<longrightarrow>
                 fst (invoke_boundary ex input call h) =
                   Inl (Error ''orbit wasm could not allocate result slice''))"
    if z: "rsp = 0"
  proof -
    obtain f g where fi: "freeInput ex inp h2 = (f, g)" by (cases "freeInput ex inp h2")
    note fp = freeInput_props [OF fi]
    have b: "invoke_boundary ex input call h =
               (case f of
                  Inl e \<Rightarrow> (Inl e, g)
                | Inr u \<Rightarrow> (Inl (Error ''orbit wasm could not allocate result slice''), g))"
      using invoke_boundary_noslot [OF wi al [unfolded z] fi] .
    have s: "snd (invoke_boundary ex input call h) = g" unfolding b by (cases f) simp_all
    have "trace h @ evs =
            trace h @ (e1 @ [Alloc ResultSlot SLICE_STRUCT_SIZE rsp] @
              (if ptr inp = 0 then [] else [Dealloc InputBuf (ptr inp) (len inp) (cap inp)]))"
      using ev(1) s fp e1(1) e2 by simp
    then have "evs = e1 @ [Alloc ResultSlot SLICE_STRUCT_SIZE rsp] @
              (if ptr inp = 0 then [] else [Dealloc InputBuf (ptr inp) (len inp) (cap inp)])"
      by simp
    then have r1: "releases InputBuf evs = ?RI"
      using e1(2) by (simp add: releases_append)
    have r2: "inst (snd (invoke_boundary ex input call h)) =
                (if ptr inp = 0 then inst h2
                 else snd (orbit_dealloc ex (ptr inp) (len inp) (cap inp) (inst h2)))"
      using s fp by (auto split: if_splits)
    have r3: "fst (invoke_boundary ex input call h) =
                   Inl (Error ''orbit wasm could not allocate result slice'')"
      if "ptr inp = 0 \<or>
               fst (orbit_dealloc ex (ptr inp) (len inp) (cap inp) (inst h2)) = Inr ()"
    proof -
      from that fp have "f = Inr ()" by (auto split: if_splits)
      then show ?thesis unfolding b by simp
    qed
    from r1 r2 r3 show ?thesis by blast
  qed
  have main: "releases InputBuf evs = ?RI \<and>
              inst (snd (invoke_boundary ex input call h)) =
                (if ptr inp = 0 then w
                 else snd (orbit_dealloc ex (ptr inp) (len inp) (cap inp) w)) \<and>
              (r = Inl e \<and>
               (ptr inp = 0 \<or>
                fst (orbit_dealloc ex (ptr inp) (len inp) (cap inp) w) = Inr ()) \<longrightarrow>
                 fst (invoke_boundary ex input call h) = Inl e)"
    if nz: "rsp \<noteq> 0"
      and od: "orbit_dealloc ex rsp SLICE_STRUCT_SIZE SLICE_STRUCT_SIZE (inst h3) = (Inr (), w)"
  proof -
    obtain d h4 where
      dl: "dealloc ex ResultSlot rsp SLICE_STRUCT_SIZE SLICE_STRUCT_SIZE h3 = (d, h4)"
      by (cases "dealloc ex ResultSlot rsp SLICE_STRUCT_SIZE SLICE_STRUCT_SIZE h3")
    from dealloc_props [OF dl] od have
      d: "d = Inr ()" "inst h4 = w"
         "trace h4 = trace h3 @ [Dealloc ResultSlot rsp SLICE_STRUCT_SIZE SLICE_STRUCT_SIZE]"
      by simp_all
    obtain f h5 where fi: "freeInput ex inp h4 = (f, h5)" by (cases "freeInput ex inp h4")
    note fp = freeInput_props [OF fi]
    have b: "invoke_boundary ex input call h =
               (case f of Inl e \<Rightarrow> (Inl e, h5) | Inr v \<Rightarrow> (r, h5))"
      using invoke_boundary_finally [where call = call, OF wi al nz tr dl fi] d(1) by simp
    have s: "snd (invoke_boundary ex input call h) = h5" unfolding b by (cases f) simp_all
    have "trace h @ evs =
            trace h @ (e1 @ [Alloc ResultSlot SLICE_STRUCT_SIZE rsp] @ e3 @
              [Dealloc ResultSlot rsp SLICE_STRUCT_SIZE SLICE_STRUCT_SIZE] @
              (if ptr inp = 0 then [] else [Dealloc InputBuf (ptr inp) (len inp) (cap inp)]))"
      using ev(1) s fp d(3) e1(1) e2 e3(1) by simp
    then have "evs = e1 @ [Alloc ResultSlot SLICE_STRUCT_SIZE rsp] @ e3 @
              [Dealloc ResultSlot rsp SLICE_STRUCT_SIZE SLICE_STRUCT_SIZE] @
              (if ptr inp = 0 then [] else [Dealloc InputBuf (ptr inp) (len inp) (cap inp)])"
      by simp
    then have r1: "releases InputBuf evs = ?RI"
      using e1(2) e3(2) by (simp add: releases_append)
    have r2: "inst (snd (invoke_boundary ex input call h)) =
                (if ptr inp = 0 then w
                 else snd (orbit_dealloc ex (ptr inp) (len inp) (cap inp) w))"
      using s fp d(2) by (auto split: if_splits)
    have r3: "fst (invoke_boundary ex input call h) = Inl e"
      if "r = Inl e"
         "ptr inp = 0 \<or> fst (orbit_dealloc ex (ptr inp) (len inp) (cap inp) w) = Inr ()"
    proof -
      from that(2) fp d(2) have "f = Inr ()" by (auto split: if_splits)
      then show ?thesis unfolding b using that(1) by simp
    qed
    from r1 r2 r3 show ?thesis by blast
  qed
  have trap: "releases InputBuf evs = [] \<and>
              inst (snd (invoke_boundary ex input call h)) = w \<and>
              fst (invoke_boundary ex input call h) = Inl x"
    if nz: "rsp \<noteq> 0"
      and od: "orbit_dealloc ex rsp SLICE_STRUCT_SIZE SLICE_STRUCT_SIZE (inst h3) = (Inl x, w)"
  proof -
    obtain d h4 where
      dl: "dealloc ex ResultSlot rsp SLICE_STRUCT_SIZE SLICE_STRUCT_SIZE h3 = (d, h4)"
      by (cases "dealloc ex ResultSlot rsp SLICE_STRUCT_SIZE SLICE_STRUCT_SIZE h3")
    from dealloc_props [OF dl] od have
      d: "d = Inl x" "inst h4 = w"
         "trace h4 = trace h3 @ [Dealloc ResultSlot rsp SLICE_STRUCT_SIZE SLICE_STRUCT_SIZE]"
      by simp_all
    obtain f h5 where fi: "freeInput ex inp h4 = (f, h5)" by (cases "freeInput ex inp h4")
    have b: "invoke_boundary ex input call h = (Inl x, h4)"
      using invoke_boundary_finally [where call = call, OF wi al nz tr dl fi] d(1) by simp
    have "trace h @ evs =
            trace h @ (e1 @ [Alloc ResultSlot SLICE_STRUCT_SIZE rsp] @ e3 @
              [Dealloc ResultSlot rsp SLICE_STRUCT_SIZE SLICE_STRUCT_SIZE])"
      using ev(1) b d(3) e1(1) e2 e3(1) by simp
    then have "evs = e1 @ [Alloc ResultSlot SLICE_STRUCT_SIZE rsp] @ e3 @
              [Dealloc ResultSlot rsp SLICE_STRUCT_SIZE SLICE_STRUCT_SIZE]"
      by simp
    then have "releases InputBuf evs = []"
      using e1(2) e3(2) by (simp add: releases_append)
    then show ?thesis using b d(2) by simp
  qed
  show ?thesis
    using ev zero main trap
    by (auto simp: invoke_snd invoke_fst_error SLICE_STRUCT_SIZE_def intro!: exI [of _ evs])
qed

text \<open>
  Instances on the example module, whose deallocator overwrites what it releases
  with the byte 255. The entry point answers status 1 with \<open>{}\<close>: the input at 16 and
  the slot at 19 are released once each, and the 15 bytes from 16 on (the input and
  the slot) hold 255 in the memory of the module when \<open>invoke\<close> is left. The entry
  point traps: \<open>invoke\<close> throws that trap, and the same 15 bytes hold 255. The memory
  is used up after the input (its 40 bytes take the addresses 5 to 44 of 48) and the
  allocator answers 0 for the slot: \<open>invoke\<close> throws the error of line 193 and the 40
  bytes hold 255. On the module whose deallocator traps, \<open>invoke\<close> throws that trap.
\<close>

theorem input_and_slot_released_witness:
  "releases InputBuf
     (trace (snd (invoke demo_platform demo_exports (Some [1, 2, 3])
                    (demo_entry 1 (map of_char ''{}'') False) (bytesToJson demo_platform)
                    demo_core))) = [(16, 3, 3)] \<and>
   releases ResultSlot
     (trace (snd (invoke demo_platform demo_exports (Some [1, 2, 3])
                    (demo_entry 1 (map of_char ''{}'') False) (bytesToJson demo_platform)
                    demo_core))) = [(19, 12, 12)] \<and>
   take 15 (drop 16 (mem (inst (snd
     (invoke demo_platform demo_exports (Some [1, 2, 3])
        (demo_entry 1 (map of_char ''{}'') False) (bytesToJson demo_platform)
        demo_core))))) = replicate 15 255 \<and>
   fst (invoke demo_platform demo_exports (Some [1, 2, 3])
          (demo_entry 0 (map of_char ''{}'') True) (bytesToJson demo_platform) demo_core) =
     Inl (Trap ''unreachable'') \<and>
   take 15 (drop 16 (mem (inst (snd
     (invoke demo_platform demo_exports (Some [1, 2, 3])
        (demo_entry 0 (map of_char ''{}'') True) (bytesToJson demo_platform)
        demo_core))))) = replicate 15 255 \<and>
   fst (invoke demo_platform demo_exports (Some (replicate 40 7))
          (demo_entry 0 [] False) (bytesToJson demo_platform)
          (demo_core\<lparr>inst := demo_world\<lparr>core := 5\<rparr>\<rparr>)) =
     Inl (Error ''orbit wasm could not allocate result slice'') \<and>
   take 40 (drop 5 (mem (inst (snd
     (invoke demo_platform demo_exports (Some (replicate 40 7))
          (demo_entry 0 [] False) (bytesToJson demo_platform)
          (demo_core\<lparr>inst := demo_world\<lparr>core := 5\<rparr>\<rparr>)))))) = replicate 40 255 \<and>
   fst (invoke demo_platform wedged_exports (Some [1, 2, 3])
          (demo_entry 0 [] False) (bytesToJson demo_platform) demo_core) =
     Inl (Trap ''heap corrupted'')"
proof -
  let ?inp = "\<lparr>ptr = 16, len = 3, cap = 3\<rparr>"
  let ?h1 = "snd (writeInput demo_exports (Some [1, 2, 3]) demo_core)"
  let ?h2 = "snd (alloc demo_exports ResultSlot SLICE_STRUCT_SIZE ?h1)"
  have a: "writeInput demo_exports (Some [1, 2, 3]) demo_core = (Inr ?inp, ?h1)"
    by code_simp
  have b: "alloc demo_exports ResultSlot SLICE_STRUCT_SIZE ?h1 = (Inr 19, ?h2)"
    by code_simp
  have t0: "trace demo_core = []" by (simp add: demo_core_def)
  have p: "ptr ?inp = 16" "len ?inp = 3" "cap ?inp = 3" by simp_all

  let ?c1 = "demo_entry 1 (map of_char ''{}'') False"
  let ?r1 = "fst (invoke_try demo_exports ?c1 ?inp 19 ?h2)"
  let ?g1 = "snd (invoke_try demo_exports ?c1 ?inp 19 ?h2)"
  let ?w1 = "snd (orbit_dealloc demo_exports 19 12 12 (inst ?g1))"
  have t1: "invoke_try demo_exports ?c1 ?inp 19 ?h2 = (?r1, ?g1)" by simp
  have d1: "orbit_dealloc demo_exports 19 12 12 (inst ?g1) = (Inr (), ?w1)" by code_simp
  have m1: "take 15 (drop 16 (mem (snd (orbit_dealloc demo_exports 16 3 3 ?w1)))) =
              replicate 15 255"
    by code_simp
  from input_and_slot_released
         [where call = ?c1 and P = demo_platform and onOk = "bytesToJson demo_platform"
            and w = ?w1 and x = "Trap []", OF a b t1]
       d1 m1 t0 p
  have i1: "releases InputBuf
     (trace (snd (invoke demo_platform demo_exports (Some [1, 2, 3]) ?c1
                    (bytesToJson demo_platform) demo_core))) = [(16, 3, 3)] \<and>
   releases ResultSlot
     (trace (snd (invoke demo_platform demo_exports (Some [1, 2, 3]) ?c1
                    (bytesToJson demo_platform) demo_core))) = [(19, 12, 12)] \<and>
   take 15 (drop 16 (mem (inst (snd
     (invoke demo_platform demo_exports (Some [1, 2, 3]) ?c1 (bytesToJson demo_platform)
        demo_core))))) = replicate 15 255"
    by auto

  let ?c2 = "demo_entry 0 (map of_char ''{}'') True"
  let ?r2 = "fst (invoke_try demo_exports ?c2 ?inp 19 ?h2)"
  let ?g2 = "snd (invoke_try demo_exports ?c2 ?inp 19 ?h2)"
  let ?w2 = "snd (orbit_dealloc demo_exports 19 12 12 (inst ?g2))"
  have t2: "invoke_try demo_exports ?c2 ?inp 19 ?h2 = (?r2, ?g2)" by simp
  have d2: "orbit_dealloc demo_exports 19 12 12 (inst ?g2) = (Inr (), ?w2)" by code_simp
  have r2: "?r2 = Inl (Trap ''unreachable'')" by code_simp
  have f2: "fst (orbit_dealloc demo_exports 16 3 3 ?w2) = Inr ()" by code_simp
  have m2: "take 15 (drop 16 (mem (snd (orbit_dealloc demo_exports 16 3 3 ?w2)))) =
              replicate 15 255"
    by code_simp
  from input_and_slot_released
         [where call = ?c2 and P = demo_platform and onOk = "bytesToJson demo_platform"
            and w = ?w2 and e = "Trap ''unreachable''" and x = "Trap []", OF a b t2]
       d2 r2 f2 m2 p
  have i2: "fst (invoke demo_platform demo_exports (Some [1, 2, 3]) ?c2
                   (bytesToJson demo_platform) demo_core) = Inl (Trap ''unreachable'') \<and>
   take 15 (drop 16 (mem (inst (snd
     (invoke demo_platform demo_exports (Some [1, 2, 3]) ?c2 (bytesToJson demo_platform)
        demo_core))))) = replicate 15 255"
    by auto

  let ?h = "demo_core\<lparr>inst := demo_world\<lparr>core := 5\<rparr>\<rparr>"
  let ?big = "\<lparr>ptr = 5, len = 40, cap = 40\<rparr>"
  let ?k1 = "snd (writeInput demo_exports (Some (replicate 40 7)) ?h)"
  let ?k2 = "snd (alloc demo_exports ResultSlot SLICE_STRUCT_SIZE ?k1)"
  let ?c3 = "demo_entry 0 [] False"
  have a3: "writeInput demo_exports (Some (replicate 40 7)) ?h = (Inr ?big, ?k1)"
    by code_simp
  have b3: "alloc demo_exports ResultSlot SLICE_STRUCT_SIZE ?k1 = (Inr 0, ?k2)"
    by code_simp
  have t3: "invoke_try demo_exports ?c3 ?big 0 ?k2 =
              (fst (invoke_try demo_exports ?c3 ?big 0 ?k2),
               snd (invoke_try demo_exports ?c3 ?big 0 ?k2))"
    by simp
  have q: "ptr ?big = 5" "len ?big = 40" "cap ?big = 40" by simp_all
  have f3: "fst (orbit_dealloc demo_exports 5 40 40 (inst ?k2)) = Inr ()" by code_simp
  have m3: "take 40 (drop 5 (mem (snd (orbit_dealloc demo_exports 5 40 40 (inst ?k2))))) =
              replicate 40 255"
    by code_simp
  from input_and_slot_released
         [where call = ?c3 and P = demo_platform and onOk = "bytesToJson demo_platform"
            and x = "Trap []", OF a3 b3 t3]
       f3 m3 q
  have i3: "fst (invoke demo_platform demo_exports (Some (replicate 40 7)) ?c3
                   (bytesToJson demo_platform) ?h) =
              Inl (Error ''orbit wasm could not allocate result slice'') \<and>
   take 40 (drop 5 (mem (inst (snd
     (invoke demo_platform demo_exports (Some (replicate 40 7)) ?c3
        (bytesToJson demo_platform) ?h))))) = replicate 40 255"
    by auto
  let ?c4 = "demo_entry 0 [] False"
  let ?j1 = "snd (writeInput wedged_exports (Some [1, 2, 3]) demo_core)"
  let ?j2 = "snd (alloc wedged_exports ResultSlot SLICE_STRUCT_SIZE ?j1)"
  let ?r4 = "fst (invoke_try wedged_exports ?c4 ?inp 19 ?j2)"
  let ?g4 = "snd (invoke_try wedged_exports ?c4 ?inp 19 ?j2)"
  let ?w4 = "snd (orbit_dealloc wedged_exports 19 12 12 (inst ?g4))"
  have a4: "writeInput wedged_exports (Some [1, 2, 3]) demo_core = (Inr ?inp, ?j1)"
    by code_simp
  have b4: "alloc wedged_exports ResultSlot SLICE_STRUCT_SIZE ?j1 = (Inr 19, ?j2)"
    by code_simp
  have t4: "invoke_try wedged_exports ?c4 ?inp 19 ?j2 = (?r4, ?g4)" by simp
  have d4: "orbit_dealloc wedged_exports 19 12 12 (inst ?g4) = (Inl (Trap ''heap corrupted''), ?w4)"
    by code_simp
  from input_and_slot_released
         [where call = ?c4 and P = demo_platform and onOk = "bytesToJson demo_platform"
            and w = ?w4 and x = "Trap ''heap corrupted''", OF a4 b4 t4]
       d4
  have i4: "fst (invoke demo_platform wedged_exports (Some [1, 2, 3]) ?c4
                   (bytesToJson demo_platform) demo_core) = Inl (Trap ''heap corrupted'')"
    by auto
  from i1 i2 i3 i4 show ?thesis by simp
qed

text \<open>
  The claim as it was stated, for every exit path of \<open>invoke\<close>, fails on three of
  them; in each the input buffer of 3 bytes has been allocated and the deallocator is
  never called for it.

  The entry point traps and the deallocator then traps on the slot, in the \<open>finally\<close>
  block: the second trap is the one that \<open>invoke\<close> throws, and \<open>freeInput\<close>, the
  statement after the release of the slot, does not run.

  The allocator gives for the input the address 100, beyond the 48 bytes of the
  memory: \<open>set\<close> raises a \<open>RangeError\<close> in \<open>writeInput\<close>, after the allocation, and
  \<open>invoke\<close> is left before its first release.

  The allocator traps when it is asked for the 12 bytes of the slot: \<open>invoke\<close> is left
  at line 191, after the input was written and before the \<open>try\<close>.
\<close>

theorem input_buffer_leaked_counterexample:
  "fst (invoke demo_platform wedged_exports (Some [1, 2, 3])
          (demo_entry 0 (map of_char ''{}'') True) (bytesToJson demo_platform) demo_core) =
     Inl (Trap ''heap corrupted'') \<and>
   trace (snd (invoke demo_platform wedged_exports (Some [1, 2, 3])
          (demo_entry 0 (map of_char ''{}'') True) (bytesToJson demo_platform) demo_core)) =
     [Alloc InputBuf 3 16, Access 0 0, Alloc ResultSlot 12 19, EntryCall 16 3 19,
      Dealloc ResultSlot 19 12 12] \<and>
   releases InputBuf
     (trace (snd (invoke demo_platform wedged_exports (Some [1, 2, 3])
          (demo_entry 0 (map of_char ''{}'') True) (bytesToJson demo_platform) demo_core))) =
     [] \<and>
   fst (invoke demo_platform far_exports (Some [1, 2, 3])
          (demo_entry 0 (map of_char ''{}'') False) (bytesToJson demo_platform) demo_core) =
     Inl (RangeError ''offset is out of bounds'') \<and>
   trace (snd (invoke demo_platform far_exports (Some [1, 2, 3])
          (demo_entry 0 (map of_char ''{}'') False) (bytesToJson demo_platform) demo_core)) =
     [Alloc InputBuf 3 100, Access 0 0] \<and>
   releases InputBuf
     (trace (snd (invoke demo_platform far_exports (Some [1, 2, 3])
          (demo_entry 0 (map of_char ''{}'') False) (bytesToJson demo_platform) demo_core))) =
     [] \<and>
   fst (invoke demo_platform slot_trap_exports (Some [1, 2, 3])
          (demo_entry 0 (map of_char ''{}'') False) (bytesToJson demo_platform) demo_core) =
     Inl (Trap ''unreachable'') \<and>
   trace (snd (invoke demo_platform slot_trap_exports (Some [1, 2, 3])
          (demo_entry 0 (map of_char ''{}'') False) (bytesToJson demo_platform) demo_core)) =
     [Alloc InputBuf 3 16, Access 0 0, AllocTrap ResultSlot 12] \<and>
   releases InputBuf
     (trace (snd (invoke demo_platform slot_trap_exports (Some [1, 2, 3])
          (demo_entry 0 (map of_char ''{}'') False) (bytesToJson demo_platform) demo_core))) =
     []"
  by code_simp

subsection \<open>Views\<close>

text \<open>
  Claim C9. Every access to the memory that \<open>invoke\<close> makes (the write of the input,
  the three word reads of the result descriptor, the copy of the payload) goes through
  a view on the buffer that is the current one at that moment: \<open>invoke\<close> adds no
  access through a view on another buffer to the record, whatever the two cached
  views were before and however often the module replaces its buffer. Each of
  \<open>getUint8Memory\<close> and \<open>getDataView\<close> compares the buffer of the cached view with
  the current buffer, returns a view on the current buffer and leaves that view cached.
\<close>

theorem views_on_current_buffer:
  "stale_accesses (trace (snd (invoke P ex input call onOk h))) = stale_accesses (trace h) \<and>
   fst (getUint8Memory h) = buf_id (inst h) \<and>
   cachedU8 (snd (getUint8Memory h)) = Some (buf_id (inst h)) \<and>
   fst (getDataView h) = buf_id (inst h) \<and>
   cachedView (snd (getDataView h)) = Some (buf_id (inst h))"
proof -
  have "stale_accesses (trace (snd (invoke P ex input call onOk h))) = stale_accesses (trace h)"
    by (simp add: invoke_snd invoke_boundary_stale)
  moreover have "fst (getUint8Memory h) = buf_id (inst h) \<and>
      cachedU8 (snd (getUint8Memory h)) = Some (buf_id (inst h))"
    using getUint8Memory_props [of h] by (cases "getUint8Memory h") simp
  moreover have "fst (getDataView h) = buf_id (inst h) \<and>
      cachedView (snd (getDataView h)) = Some (buf_id (inst h))"
    using getDataView_props [of h] by (cases "getDataView h") simp
  ultimately show ?thesis by simp
qed

text \<open>
  An instance: both cached views are on an old buffer (7) when the call starts, and
  the entry point replaces the buffer 0 by the buffer 1. The input is written through
  a view on 0, the descriptor and the payload are read through views on 1.
\<close>

theorem views_on_current_buffer_witness:
  "stale_accesses
     (trace (snd (invoke demo_platform demo_exports (Some [1, 2, 3])
                    (demo_entry 0 (map of_char ''{}'') False) (bytesToJson demo_platform)
                    (demo_core\<lparr>cachedView := Some 7, cachedU8 := Some 7\<rparr>)))) = [] \<and>
   accesses
     (trace (snd (invoke demo_platform demo_exports (Some [1, 2, 3])
                    (demo_entry 0 (map of_char ''{}'') False) (bytesToJson demo_platform)
                    (demo_core\<lparr>cachedView := Some 7, cachedU8 := Some 7\<rparr>)))) =
     [Access 0 0, Access 1 1, Access 1 1, Access 1 1, Access 1 1]"
proof -
  have a: "stale_accesses (trace (demo_core\<lparr>cachedView := Some 7, cachedU8 := Some 7\<rparr>)) = []"
    by (simp add: demo_core_def)
  have b: "accesses
     (trace (snd (invoke demo_platform demo_exports (Some [1, 2, 3])
                    (demo_entry 0 (map of_char ''{}'') False) (bytesToJson demo_platform)
                    (demo_core\<lparr>cachedView := Some 7, cachedU8 := Some 7\<rparr>)))) =
     [Access 0 0, Access 1 1, Access 1 1, Access 1 1, Access 1 1]"
    by code_simp
  from views_on_current_buffer
    [of demo_platform demo_exports "Some [1, 2, 3]" "demo_entry 0 (map of_char ''{}'') False"
        "bytesToJson demo_platform" "demo_core\<lparr>cachedView := Some 7, cachedU8 := Some 7\<rparr>"] a b
  show ?thesis by simp
qed

subsection \<open>Status, payload and the typed error\<close>

lemma structured_error_obj:
  "structured_error d \<Longrightarrow> \<exists>kvs. d = JObj kvs"
  by (cases d) (simp_all add: structured_error_def field_def is_string_def)

lemma get_prop_field:
  "get_prop (JObj kvs) k = Inr (field (JObj kvs) k)"
  by (simp add: field_def split: option.splits)

text \<open>
  Claim C3. When the boundary part of \<open>invoke\<close> ends with a status and a payload:
  with the status 0, \<open>invoke\<close> returns what the decoder of the caller makes of the
  payload; with another status and a payload that decodes to a structured error,
  \<open>invoke\<close> throws an \<open>OrbitError\<close> whose detail is the decoded payload itself (so
  its \<open>kind\<close>, \<open>message\<close> and \<open>span\<close> are those of the payload) and whose message is
  the kind, a colon, a space and the message.
\<close>

theorem structured_error_mapped:
  assumes "invoke_boundary ex input call h = (Inr (st, payload), h1)"
  shows "(st = 0 \<longrightarrow> invoke P ex input call onOk h = (onOk payload, h1)) \<and>
         (st \<noteq> 0 \<and> bytesToJson P payload = Inr detail \<and> structured_error detail \<and>
          field detail ''kind'' = JStr k \<and> field detail ''message'' = JStr m \<longrightarrow>
            invoke P ex input call onOk h =
              (Inl (OrbitError detail (k @ '': '' @ m) (''Orbit'' @ k @ ''Error'')), h1))"
proof -
  have "st = 0 \<Longrightarrow> invoke P ex input call onOk h = (onOk payload, h1)"
    using assms by (simp add: invoke_def STATUS_OK_def)
  moreover have "invoke P ex input call onOk h =
              (Inl (OrbitError detail (k @ '': '' @ m) (''Orbit'' @ k @ ''Error'')), h1)"
    if "st \<noteq> 0" "bytesToJson P payload = Inr detail" "structured_error detail"
       "field detail ''kind'' = JStr k" "field detail ''message'' = JStr m"
  proof -
    from that(3) obtain kvs where d: "detail = JObj kvs" using structured_error_obj by blast
    have "new_OrbitError P detail = OrbitError detail (k @ '': '' @ m) (''Orbit'' @ k @ ''Error'')"
      using that(4,5) unfolding d new_OrbitError_def get_prop_field by simp
    with assms that(1,2) show ?thesis by (simp add: invoke_def STATUS_OK_def)
  qed
  ultimately show ?thesis by blast
qed

text \<open>
  Two instances: the status 1 with the text of a parse error, and the status 0 with
  the text \<open>{}\<close>, which the decoder \<open>bytesToJson\<close> turns into the empty object.
\<close>

theorem structured_error_mapped_witness:
  "fst (invoke demo_platform demo_exports (Some (map of_char ''app {''))
          (demo_entry 1 (map of_char error_text) False) (bytesToJson demo_platform) roomy_core) =
     Inl (OrbitError
            (JObj [(''kind'', JStr ''Parse''), (''message'', JStr ''unexpected end of input''),
                   (''span'', JObj [(''start'', JNum ''5''), (''end'', JNum ''5'')])])
            ''Parse: unexpected end of input'' ''OrbitParseError'') \<and>
   fst (invoke demo_platform demo_exports (Some (map of_char ''app {}''))
          (demo_entry 0 (map of_char ''{}'') False) (bytesToJson demo_platform) roomy_core) =
     Inr (JObj [])"
proof -
  let ?d = "JObj [(''kind'', JStr ''Parse''), (''message'', JStr ''unexpected end of input''),
                  (''span'', JObj [(''start'', JNum ''5''), (''end'', JNum ''5'')])]"
  let ?h1 = "snd (invoke_boundary demo_exports (Some (map of_char ''app {''))
                    (demo_entry 1 (map of_char error_text) False) roomy_core)"
  let ?h2 = "snd (invoke_boundary demo_exports (Some (map of_char ''app {}''))
                    (demo_entry 0 (map of_char ''{}'') False) roomy_core)"
  have a: "invoke_boundary demo_exports (Some (map of_char ''app {''))
             (demo_entry 1 (map of_char error_text) False) roomy_core =
           (Inr (1, map of_char error_text), ?h1)"
    by code_simp
  have b: "bytesToJson demo_platform (map of_char error_text) = Inr ?d"
    by code_simp
  have c: "structured_error ?d" by code_simp
  have d: "field ?d ''kind'' = JStr ''Parse''" by code_simp
  have e: "field ?d ''message'' = JStr ''unexpected end of input''" by code_simp
  have f: "invoke_boundary demo_exports (Some (map of_char ''app {}''))
             (demo_entry 0 (map of_char ''{}'') False) roomy_core =
           (Inr (0, map of_char ''{}''), ?h2)"
    by code_simp
  have g: "bytesToJson demo_platform (map of_char ''{}'') = Inr (JObj [])"
    by code_simp
  from structured_error_mapped
         [OF a, where P = demo_platform and onOk = "bytesToJson demo_platform" and detail = ?d
            and k = "''Parse''" and m = "''unexpected end of input''"]
       structured_error_mapped
         [OF f, where P = demo_platform and onOk = "bytesToJson demo_platform"]
       b c d e g
  show ?thesis by simp
qed

text \<open>
  Claim C4, as amended. When the entry point returns a status that is not 0 and the
  payload is not JSON text (\<open>JSON.parse\<close> raises, as on an empty payload), \<open>invoke\<close>
  throws the \<open>SyntaxError\<close> of \<open>JSON.parse\<close>; when the payload is the JSON text
  \<open>null\<close>, it throws the \<open>TypeError\<close> of the constructor. Neither is an
  \<open>OrbitError\<close>. (A payload that is JSON text of any other shape is not checked
  against the shape of a structured error.)
\<close>

theorem malformed_payload_not_orbit_error:
  assumes "invoke_boundary ex input call h = (Inr (st, payload), h1)"
      and "st \<noteq> 0"
  shows "(json_parse P (bytesToString P payload) = None \<longrightarrow>
            invoke P ex input call onOk h = (Inl SyntaxError, h1)) \<and>
         (json_parse P (bytesToString P payload) = Some JNull \<longrightarrow>
            invoke P ex input call onOk h =
              (Inl (TypeError ''Cannot read properties of null''), h1)) \<and>
         (json_parse P (bytesToString P payload) = None \<or>
          json_parse P (bytesToString P payload) = Some JNull \<longrightarrow>
            (case fst (invoke P ex input call onOk h) of
               Inl e \<Rightarrow> is_OrbitError e = False
             | Inr v \<Rightarrow> False))"
  using assms
  by (auto simp: invoke_def STATUS_OK_def bytesToJson_def new_OrbitError_def)

text \<open>
  Two instances, both with the status 1: an empty payload, and the four bytes of
  \<open>oops\<close>.
\<close>

theorem malformed_payload_not_orbit_error_witness:
  "fst (invoke demo_platform demo_exports (Some [1, 2, 3]) (demo_entry 1 [] False)
          (bytesToJson demo_platform) demo_core) = Inl SyntaxError \<and>
   fst (invoke demo_platform demo_exports (Some [1, 2, 3])
          (demo_entry 1 (map of_char ''oops'') False)
          (bytesToJson demo_platform) demo_core) = Inl SyntaxError"
proof -
  let ?h1 = "snd (invoke_boundary demo_exports (Some [1, 2, 3]) (demo_entry 1 [] False) demo_core)"
  let ?h2 = "snd (invoke_boundary demo_exports (Some [1, 2, 3])
                    (demo_entry 1 (map of_char ''oops'') False) demo_core)"
  have a: "invoke_boundary demo_exports (Some [1, 2, 3]) (demo_entry 1 [] False) demo_core =
             (Inr (1, []), ?h1)"
    by code_simp
  have b: "invoke_boundary demo_exports (Some [1, 2, 3])
             (demo_entry 1 (map of_char ''oops'') False) demo_core =
             (Inr (1, map of_char ''oops''), ?h2)"
    by code_simp
  have n: "(1::int) \<noteq> 0" by simp
  have c: "json_parse demo_platform (bytesToString demo_platform []) = None"
    by code_simp
  have d: "json_parse demo_platform (bytesToString demo_platform (map of_char ''oops'')) = None"
    by code_simp
  from malformed_payload_not_orbit_error
         [OF a n, where P = demo_platform and onOk = "bytesToJson demo_platform"]
       malformed_payload_not_orbit_error
         [OF b n, where P = demo_platform and onOk = "bytesToJson demo_platform"]
       c d
  show ?thesis by simp
qed

text \<open>
  The claim as it was stated fails on a payload that is JSON text but has not the
  shape of a structured error. With the status 1 and the two bytes of \<open>{}\<close> the
  payload decodes to the empty object, and what \<open>invoke\<close> throws is an \<open>OrbitError\<close>,
  with the message \<open>undefined: undefined\<close>.
\<close>

theorem unshaped_payload_counterexample:
  "structured_error (JObj []) = False \<and>
   bytesToJson demo_platform (map of_char ''{}'') = Inr (JObj []) \<and>
   fst (invoke demo_platform demo_exports (Some [1, 2, 3])
          (demo_entry 1 (map of_char ''{}'') False) (bytesToJson demo_platform) demo_core) =
     Inl (OrbitError (JObj []) ''undefined: undefined'' ''OrbitundefinedError'') \<and>
   is_OrbitError (OrbitError (JObj []) ''undefined: undefined'' ''OrbitundefinedError'')"
  by code_simp

subsection \<open>The slice codec\<close>

text \<open>
  Claim C8. \<open>writeInput\<close>: for an absent or empty buffer the result is the zero
  descriptor and nothing else happens (no call of the allocator, no change of the
  state). For a buffer of n > 0 bytes the allocator is called once, for n bytes;
  when it returns, a descriptor that \<open>writeInput\<close> returns has the pointer the
  allocator gave and length and capacity n, the bytes of the buffer are in the memory from that pointer on and
  the rest of the memory is as the allocator left it; and \<open>writeInput\<close> does return
  it whenever the pointer is above 0 and the n bytes from it on lie in the memory.
  \<open>copySlice\<close>: for the length 0 the result is the empty buffer; for a descriptor of
  a range in the memory it is the list of the bytes in that range, of the length of
  the descriptor. It is a value of the host, which later writes to the memory of the
  module do not reach. \<open>copySlice\<close> always returns a buffer and leaves the module as
  it is.
\<close>

theorem slice_codec:
  "(bytes = None \<or> bytes = Some [] \<longrightarrow> writeInput ex bytes h = (Inr zero_slice, h)) \<and>
   (bytes = Some bs \<and> bs \<noteq> [] \<and> orbit_alloc ex (int (length bs)) (inst h) = (Inr p, w) \<longrightarrow>
      allocations InputBuf (trace (snd (writeInput ex bytes h))) =
        allocations InputBuf (trace h) @ [(int (length bs), p)] \<and>
      (fst (writeInput ex bytes h) = Inr d \<longrightarrow>
         d = \<lparr>ptr = p, len = int (length bs), cap = int (length bs)\<rparr> \<and>
         take (length bs) (drop (nat p) (mem (inst (snd (writeInput ex bytes h))))) = bs \<and>
         take (nat p) (mem (inst (snd (writeInput ex bytes h)))) = take (nat p) (mem w) \<and>
         drop (nat p + length bs) (mem (inst (snd (writeInput ex bytes h)))) =
           drop (nat p + length bs) (mem w)) \<and>
      (0 < p \<and> p + int (length bs) \<le> int (length (mem w)) \<longrightarrow>
         fst (writeInput ex bytes h) =
           Inr \<lparr>ptr = p, len = int (length bs), cap = int (length bs)\<rparr>)) \<and>
   (len sl = 0 \<longrightarrow> copySlice sl h = (Inr [], h)) \<and>
   (0 < len sl \<and> 0 \<le> ptr sl \<and> ptr sl + len sl \<le> int (length (mem (inst h))) \<longrightarrow>
      fst (copySlice sl h) = Inr (take (nat (len sl)) (drop (nat (ptr sl)) (mem (inst h)))) \<and>
      int (length (take (nat (len sl)) (drop (nat (ptr sl)) (mem (inst h))))) = len sl) \<and>
   (\<exists>copy. fst (copySlice sl h) = Inr copy) \<and>
   inst (snd (copySlice sl h)) = inst h"
proof -
  have a: "bytes = None \<or> bytes = Some [] \<Longrightarrow> writeInput ex bytes h = (Inr zero_slice, h)"
    by (auto simp: writeInput_def)
  have b1: "allocations InputBuf (trace (snd (writeInput ex bytes h))) =
        allocations InputBuf (trace h) @ [(int (length bs), p)]"
    if "bytes = Some bs" "bs \<noteq> []" "orbit_alloc ex (int (length bs)) (inst h) = (Inr p, w)"
    using that
    by (simp add: writeInput_def alloc_def getUint8Memory_def u8_set_def record_event_def Let_def
          allocations_append split: option.splits)
  have b0: "fst (writeInput ex bytes h) =
           Inr \<lparr>ptr = p, len = int (length bs), cap = int (length bs)\<rparr> \<and>
         take (length bs) (drop (nat p) (mem (inst (snd (writeInput ex bytes h))))) = bs \<and>
         take (nat p) (mem (inst (snd (writeInput ex bytes h)))) = take (nat p) (mem w) \<and>
         drop (nat p + length bs) (mem (inst (snd (writeInput ex bytes h)))) =
           drop (nat p + length bs) (mem w)"
    if "bytes = Some bs" "bs \<noteq> []" "orbit_alloc ex (int (length bs)) (inst h) = (Inr p, w)"
       "0 < p" "p + int (length bs) \<le> int (length (mem w))"
    using that
    by (simp add: writeInput_def alloc_def getUint8Memory_def u8_set_def record_event_def Let_def
          split: option.splits)
  have rng: "0 < p \<and> p + int (length bs) \<le> int (length (mem w))"
    if "bytes = Some bs" "bs \<noteq> []" "orbit_alloc ex (int (length bs)) (inst h) = (Inr p, w)"
       "fst (writeInput ex bytes h) = Inr d"
    using that
    by (auto simp: writeInput_def alloc_def getUint8Memory_def u8_set_def record_event_def Let_def
          split: option.splits if_splits)
  have b2: "d = \<lparr>ptr = p, len = int (length bs), cap = int (length bs)\<rparr> \<and>
         take (length bs) (drop (nat p) (mem (inst (snd (writeInput ex bytes h))))) = bs \<and>
         take (nat p) (mem (inst (snd (writeInput ex bytes h)))) = take (nat p) (mem w) \<and>
         drop (nat p + length bs) (mem (inst (snd (writeInput ex bytes h)))) =
           drop (nat p + length bs) (mem w)"
    if "bytes = Some bs" "bs \<noteq> []" "orbit_alloc ex (int (length bs)) (inst h) = (Inr p, w)"
       "fst (writeInput ex bytes h) = Inr d"
    using b0 [OF that(1,2,3)] rng [OF that] that(4) by simp
  have b3: "fst (writeInput ex bytes h) =
           Inr \<lparr>ptr = p, len = int (length bs), cap = int (length bs)\<rparr>"
    if "bytes = Some bs" "bs \<noteq> []" "orbit_alloc ex (int (length bs)) (inst h) = (Inr p, w)"
       "0 < p" "p + int (length bs) \<le> int (length (mem w))"
    using b0 [OF that] by simp
  have c: "len sl = 0 \<Longrightarrow> copySlice sl h = (Inr [], h)"
    by (simp add: copySlice_def)
  have d: "fst (copySlice sl h) = Inr (take (nat (len sl)) (drop (nat (ptr sl)) (mem (inst h)))) \<and>
      int (length (take (nat (len sl)) (drop (nat (ptr sl)) (mem (inst h))))) = len sl"
    if "0 < len sl" "0 \<le> ptr sl" "ptr sl + len sl \<le> int (length (mem (inst h)))"
    using that
    by (auto simp: copySlice_def getUint8Memory_def u8_slice_def record_event_def Let_def
          rel_index_def min_def nat_add_distrib split: option.splits)
  have e: "\<exists>copy. fst (copySlice sl h) = Inr copy"
    using copySlice_ok [of sl h] by auto
  have f: "inst (snd (copySlice sl h)) = inst h"
    using copySlice_trace [of sl h] by (cases "copySlice sl h") auto
  from a b1 b2 b3 c d e f show ?thesis by blast
qed

text \<open>
  Instances: an absent input; the input 1, 2, 3, written at the address 16 and copied
  out again; the zero descriptor. In the last two lines the payload \<open>{}\<close> has been
  copied from the address 31 before the buffer there was released: the deallocator of
  the example module has overwritten the two bytes in the memory, the copy that
  \<open>invoke\<close> hands to the decoder still holds them.
\<close>

theorem slice_codec_witness:
  "writeInput demo_exports None demo_core = (Inr zero_slice, demo_core) \<and>
   fst (writeInput demo_exports (Some [1, 2, 3]) demo_core) = Inr \<lparr>ptr = 16, len = 3, cap = 3\<rparr> \<and>
   take 3 (drop 16 (mem (inst (snd (writeInput demo_exports (Some [1, 2, 3]) demo_core))))) =
     [1, 2, 3] \<and>
   copySlice zero_slice demo_core = (Inr [], demo_core) \<and>
   fst (copySlice \<lparr>ptr = 16, len = 3, cap = 3\<rparr>
          (snd (writeInput demo_exports (Some [1, 2, 3]) demo_core))) = Inr [1, 2, 3] \<and>
   fst (invoke demo_platform demo_exports (Some [1, 2, 3])
          (demo_entry 0 (map of_char ''{}'') False) (\<lambda>bytes. Inr bytes) demo_core) =
     Inr (map of_char ''{}'') \<and>
   take 2 (drop 31 (mem (inst (snd
     (invoke demo_platform demo_exports (Some [1, 2, 3])
        (demo_entry 0 (map of_char ''{}'') False) (\<lambda>bytes. Inr bytes) demo_core))))) =
     [255, 255]"
proof -
  let ?h1 = "snd (writeInput demo_exports (Some [1, 2, 3]) demo_core)"
  let ?w = "snd (demo_alloc 3 demo_world)"
  have al: "orbit_alloc demo_exports (int (length [1, 2, 3 :: byte])) (inst demo_core) = (Inr 16, ?w)"
    by code_simp
  have rg: "(0::int) < 16 \<and> 16 + int (length [1, 2, 3 :: byte]) \<le> int (length (mem ?w))"
    by code_simp
  have m: "take (nat (len \<lparr>ptr = 16, len = 3, cap = 3\<rparr>))
             (drop (nat (ptr \<lparr>ptr = 16, len = 3, cap = 3\<rparr>)) (mem (inst ?h1))) = [1, 2, 3]"
    by code_simp
  have rg2: "0 < len \<lparr>ptr = 16, len = 3, cap = 3\<rparr> \<and> 0 \<le> ptr \<lparr>ptr = 16, len = 3, cap = 3\<rparr> \<and>
             ptr \<lparr>ptr = 16, len = 3, cap = 3\<rparr> + len \<lparr>ptr = 16, len = 3, cap = 3\<rparr>
               \<le> int (length (mem (inst ?h1)))"
    by code_simp
  have z: "len zero_slice = 0" by (simp add: zero_slice_def)
  have i1: "writeInput demo_exports None demo_core = (Inr zero_slice, demo_core)"
    using slice_codec [where bytes = None and ex = demo_exports and h = demo_core] by simp
  have i2: "fst (writeInput demo_exports (Some [1, 2, 3]) demo_core) =
              Inr \<lparr>ptr = 16, len = int (length [1, 2, 3 :: byte]), cap = int (length [1, 2, 3 :: byte])\<rparr> \<and>
            (fst (writeInput demo_exports (Some [1, 2, 3]) demo_core) =
               Inr \<lparr>ptr = 16, len = 3, cap = 3\<rparr> \<longrightarrow>
             take (length [1, 2, 3 :: byte]) (drop (nat 16) (mem (inst ?h1))) = [1, 2, 3])"
    using slice_codec [where bytes = "Some [1, 2, 3]" and bs = "[1, 2, 3]" and ex = demo_exports
        and h = demo_core and p = 16 and w = ?w and d = "\<lparr>ptr = 16, len = 3, cap = 3\<rparr>"] al rg
    by blast
  have i3: "copySlice zero_slice demo_core = (Inr [], demo_core)"
    using slice_codec [where sl = zero_slice and h = demo_core] z by simp
  have i4: "fst (copySlice \<lparr>ptr = 16, len = 3, cap = 3\<rparr> ?h1) = Inr [1, 2, 3]"
    using slice_codec [where sl = "\<lparr>ptr = 16, len = 3, cap = 3\<rparr>" and h = ?h1] rg2 m by simp
  have i5: "fst (invoke demo_platform demo_exports (Some [1, 2, 3])
          (demo_entry 0 (map of_char ''{}'') False) (\<lambda>bytes. Inr bytes) demo_core) =
     Inr (map of_char ''{}'') \<and>
   take 2 (drop 31 (mem (inst (snd
     (invoke demo_platform demo_exports (Some [1, 2, 3])
        (demo_entry 0 (map of_char ''{}'') False) (\<lambda>bytes. Inr bytes) demo_core))))) =
     [255, 255]"
    by code_simp
  from i1 i2 i3 i4 i5 show ?thesis by (simp add: numeral_3_eq_3)
qed

subsection \<open>The input of evaluate\<close>

lemma tryLoadFileInput_Some:
  "(fst (tryLoadFileInput E path enc) = Some contents) =
     (\<exists>fs target. nodeFs E = Some fs \<and> trim E path \<noteq> [] \<and>
        (if startsWith (trim E path) ''file:''
         then map_option UrlTarget (new_URL E (trim E path))
         else Some (PathTarget (trim E path))) = Some target \<and>
        existsSync fs target = Inr True \<and>
        readFileSync fs target (case enc of None \<Rightarrow> ''utf8'' | Some c \<Rightarrow> c) = Inr contents)"
  by (auto simp: tryLoadFileInput_def load_target_def split: option.splits sum.splits)

text \<open>
  Claim C5. For \<open>evaluate\<close> on an options object. With a \<open>source\<close> string, that
  string is the source that goes to the entry point and the file system is not
  called, whatever \<open>filePath\<close> is.

  \<open>tryLoadFileInput\<close> gets contents in one case only: there is a file system, the
  trimmed path is not empty, the target is made (the trimmed path itself, or the URL
  that \<open>new URL\<close> makes of it when it starts with \<open>file:\<close>, and \<open>new URL\<close> has not
  raised), \<open>existsSync\<close> answers yes for that target and \<open>readFileSync\<close> returns the
  contents, read with the encoding of the options or with utf8. In every other case
  (no file system, a \<open>file:\<close> URL that \<open>new URL\<close> refuses, a file that is missing, an
  \<open>existsSync\<close> or a \<open>readFileSync\<close> that raises) it gets none. This holds for
  whatever \<open>trim\<close> of the platform removes.

  Without \<open>source\<close> and with a \<open>filePath\<close> (a string that is not empty: the code
  tests \<open>input.filePath\<close> for truth, and claim C10 is about the empty string): when
  \<open>tryLoadFileInput\<close> gets contents, they are the source that goes to the entry
  point; when it gets none, \<open>evaluate\<close> throws an \<open>Error\<close> and makes no boundary
  call, so that the path is never taken as source text. The message is that of line
  293 on a host without a file system and that of line 297, with the path as it was
  given, otherwise. With neither \<open>source\<close> nor \<open>filePath\<close>, \<open>evaluate\<close> throws the
  \<open>TypeError\<close> of line 303.
\<close>

theorem evaluate_options_resolved:
  "(source opts = Some src \<longrightarrow>
      resolveEvaluateInput E (Options opts) = (Inr src, []) \<and>
      evaluate P E ex (Options opts) h =
        (invoke P ex (encodeString P src) (orbit_evaluate ex) (bytesToJson P) h, [])) \<and>
   ((fst (tryLoadFileInput E path enc) = Some contents) =
      (\<exists>fs target. nodeFs E = Some fs \<and> trim E path \<noteq> [] \<and>
         (if startsWith (trim E path) ''file:''
          then map_option UrlTarget (new_URL E (trim E path))
          else Some (PathTarget (trim E path))) = Some target \<and>
         existsSync fs target = Inr True \<and>
         readFileSync fs target (case enc of None \<Rightarrow> ''utf8'' | Some c \<Rightarrow> c) = Inr contents)) \<and>
   (source opts = None \<and> filePath opts = Some path \<and> path \<noteq> [] \<and>
    fst (tryLoadFileInput E path (encoding opts)) = Some contents \<longrightarrow>
      fst (evaluate P E ex (Options opts) h) =
        invoke P ex (encodeString P contents) (orbit_evaluate ex) (bytesToJson P) h) \<and>
   (source opts = None \<and> filePath opts = Some path \<and> path \<noteq> [] \<and>
    fst (tryLoadFileInput E path (encoding opts)) = None \<longrightarrow>
      fst (evaluate P E ex (Options opts) h) =
        (Inl (Error (if nodeFs E = None
                     then ''orbit.evaluate cannot read file paths in this environment''
                     else ''orbit.evaluate could not read from file path: '' @ path)), h)) \<and>
   (source opts = None \<and> filePath opts = None \<longrightarrow>
      evaluate P E ex (Options opts) h =
        ((Inl (TypeError ''orbit.evaluate requires a source string or options with filePath.''), h),
         []))"
proof -
  have a: "source opts = Some src \<Longrightarrow>
      resolveEvaluateInput E (Options opts) = (Inr src, []) \<and>
      evaluate P E ex (Options opts) h =
        (invoke P ex (encodeString P src) (orbit_evaluate ex) (bytesToJson P) h, [])"
    by (simp add: evaluate_def resolveEvaluateInput_def)
  have c: "fst (evaluate P E ex (Options opts) h) =
        invoke P ex (encodeString P contents) (orbit_evaluate ex) (bytesToJson P) h"
    if "source opts = None" "filePath opts = Some path" "path \<noteq> []"
       "fst (tryLoadFileInput E path (encoding opts)) = Some contents"
    using that
    by (cases "tryLoadFileInput E path (encoding opts)")
       (simp add: evaluate_def resolveEvaluateInput_def)
  have d: "fst (evaluate P E ex (Options opts) h) =
        (Inl (Error (if nodeFs E = None
                     then ''orbit.evaluate cannot read file paths in this environment''
                     else ''orbit.evaluate could not read from file path: '' @ path)), h)"
    if "source opts = None" "filePath opts = Some path" "path \<noteq> []"
       "fst (tryLoadFileInput E path (encoding opts)) = None"
    using that
    by (cases "tryLoadFileInput E path (encoding opts)")
       (auto simp: evaluate_def resolveEvaluateInput_def split: option.splits)
  have e: "source opts = None \<Longrightarrow> filePath opts = None \<Longrightarrow>
      evaluate P E ex (Options opts) h =
        ((Inl (TypeError ''orbit.evaluate requires a source string or options with filePath.''), h),
         [])"
    by (simp add: evaluate_def resolveEvaluateInput_def)
  from a tryLoadFileInput_Some [of E path enc contents] c d e show ?thesis by blast
qed

text \<open>
  Instances: \<open>source\<close> next to the path of a file that exists; the path of a file
  that is missing; the path of a file that cannot be read; a \<open>file:\<close> URL that
  \<open>new URL\<close> refuses (a file is there under that text as a path, and it is not
  read); the \<open>file:\<close> URL of a file that is missing; a path on a host
  without a file system; neither field; and the \<open>file:\<close> URL of a file that exists,
  between a no-break space, a space and a trailing space, which is read.
\<close>

theorem evaluate_options_resolved_witness:
  "evaluate demo_platform node_env demo_exports
     (Options \<lparr>filePath = Some ''/tmp/config.orbit'', source = Some ''app {}'', encoding = None\<rparr>)
     roomy_core =
     (invoke demo_platform demo_exports (encodeString demo_platform ''app {}'')
        (orbit_evaluate demo_exports) (bytesToJson demo_platform) roomy_core, []) \<and>
   evaluate demo_platform node_env demo_exports
     (Options \<lparr>filePath = Some ''/tmp/missing.orbit'', source = None, encoding = None\<rparr>)
     roomy_core =
     ((Inl (Error ''orbit.evaluate could not read from file path: /tmp/missing.orbit''), roomy_core),
      [ExistsSync (PathTarget ''/tmp/missing.orbit'')]) \<and>
   fst (evaluate demo_platform node_env demo_exports
     (Options \<lparr>filePath = Some ''/tmp/locked.orbit'', source = None, encoding = None\<rparr>)
     roomy_core) =
     (Inl (Error ''orbit.evaluate could not read from file path: /tmp/locked.orbit''), roomy_core) \<and>
   fst (evaluate demo_platform node_env demo_exports
     (Options \<lparr>filePath = Some ''file://a b/c.orbit'', source = None, encoding = None\<rparr>)
     roomy_core) =
     (Inl (Error ''orbit.evaluate could not read from file path: file://a b/c.orbit''), roomy_core) \<and>
   fst (evaluate demo_platform node_env demo_exports
     (Options \<lparr>filePath = Some ''file:///tmp/missing.orbit'', source = None, encoding = None\<rparr>)
     roomy_core) =
     (Inl (Error ''orbit.evaluate could not read from file path: file:///tmp/missing.orbit''),
      roomy_core) \<and>
   evaluate demo_platform browser_env demo_exports
     (Options \<lparr>filePath = Some ''/tmp/config.orbit'', source = None, encoding = None\<rparr>)
     roomy_core =
     ((Inl (Error ''orbit.evaluate cannot read file paths in this environment''), roomy_core), []) \<and>
   evaluate demo_platform node_env demo_exports
     (Options \<lparr>filePath = None, source = None, encoding = Some ''utf8''\<rparr>) roomy_core =
     ((Inl (TypeError ''orbit.evaluate requires a source string or options with filePath.''),
       roomy_core), []) \<and>
   fst (evaluate demo_platform node_env demo_exports
     (Options \<lparr>filePath = Some (CHR 0xA0 # '' file:///tmp/config.orbit ''), source = None,
               encoding = None\<rparr>)
     roomy_core) =
     invoke demo_platform demo_exports (encodeString demo_platform ''app { name: 1 }'')
       (orbit_evaluate demo_exports) (bytesToJson demo_platform) roomy_core"
proof -
  let ?o1 = "\<lparr>filePath = Some ''/tmp/config.orbit'', source = Some ''app {}'', encoding = None\<rparr>"
  let ?o2 = "\<lparr>filePath = Some ''/tmp/missing.orbit'', source = None, encoding = None\<rparr>"
  let ?o3 = "\<lparr>filePath = Some ''/tmp/locked.orbit'', source = None, encoding = None\<rparr>"
  let ?o4 = "\<lparr>filePath = Some ''file://a b/c.orbit'', source = None, encoding = None\<rparr>"
  let ?o5 = "\<lparr>filePath = Some ''file:///tmp/missing.orbit'', source = None, encoding = None\<rparr>"
  let ?o6 = "\<lparr>filePath = Some ''/tmp/config.orbit'', source = None, encoding = None\<rparr>"
  let ?o7 = "\<lparr>filePath = None, source = None, encoding = Some ''utf8''\<rparr>"
  let ?p8 = "CHR 0xA0 # '' file:///tmp/config.orbit ''"
  let ?o8 = "\<lparr>filePath = Some ?p8, source = None, encoding = None\<rparr>"
  have a2: "fst (tryLoadFileInput node_env ''/tmp/missing.orbit'' (encoding ?o2)) = None"
    by code_simp
  have a3: "fst (tryLoadFileInput node_env ''/tmp/locked.orbit'' (encoding ?o3)) = None"
    by code_simp
  have a4: "fst (tryLoadFileInput node_env ''file://a b/c.orbit'' (encoding ?o4)) = None"
    by code_simp
  have a5: "fst (tryLoadFileInput node_env ''file:///tmp/missing.orbit'' (encoding ?o5)) = None"
    by code_simp
  have a6: "fst (tryLoadFileInput browser_env ''/tmp/config.orbit'' (encoding ?o6)) = None"
    by code_simp
  have a8: "fst (tryLoadFileInput node_env ?p8 (encoding ?o8)) = Some ''app { name: 1 }''"
    by code_simp
  have c2: "snd (evaluate demo_platform node_env demo_exports (Options ?o2) roomy_core) =
              [ExistsSync (PathTarget ''/tmp/missing.orbit'')]"
    by code_simp
  have c6: "snd (evaluate demo_platform browser_env demo_exports (Options ?o6) roomy_core) = []"
    by code_simp
  have n: "nodeFs node_env \<noteq> None" by (simp add: node_env_def)
  have nb: "nodeFs browser_env = None" by (simp add: browser_env_def)
  have i1: "evaluate demo_platform node_env demo_exports (Options ?o1) roomy_core =
     (invoke demo_platform demo_exports (encodeString demo_platform ''app {}'')
        (orbit_evaluate demo_exports) (bytesToJson demo_platform) roomy_core, [])"
    using evaluate_options_resolved
            [where opts = ?o1 and src = "''app {}''" and P = demo_platform and E = node_env
               and ex = demo_exports and h = roomy_core]
    by simp
  have i2: "fst (evaluate demo_platform node_env demo_exports (Options ?o2) roomy_core) =
     (Inl (Error ''orbit.evaluate could not read from file path: /tmp/missing.orbit''), roomy_core)"
    using evaluate_options_resolved
            [where opts = ?o2 and path = "''/tmp/missing.orbit''" and P = demo_platform
               and E = node_env and ex = demo_exports and h = roomy_core] a2 n
    by simp
  have i3: "fst (evaluate demo_platform node_env demo_exports (Options ?o3) roomy_core) =
     (Inl (Error ''orbit.evaluate could not read from file path: /tmp/locked.orbit''), roomy_core)"
    using evaluate_options_resolved
            [where opts = ?o3 and path = "''/tmp/locked.orbit''" and P = demo_platform
               and E = node_env and ex = demo_exports and h = roomy_core] a3 n
    by simp
  have i4: "fst (evaluate demo_platform node_env demo_exports (Options ?o4) roomy_core) =
     (Inl (Error ''orbit.evaluate could not read from file path: file://a b/c.orbit''), roomy_core)"
    using evaluate_options_resolved
            [where opts = ?o4 and path = "''file://a b/c.orbit''" and P = demo_platform
               and E = node_env and ex = demo_exports and h = roomy_core] a4 n
    by simp
  have i5: "fst (evaluate demo_platform node_env demo_exports (Options ?o5) roomy_core) =
     (Inl (Error ''orbit.evaluate could not read from file path: file:///tmp/missing.orbit''),
      roomy_core)"
    using evaluate_options_resolved
            [where opts = ?o5 and path = "''file:///tmp/missing.orbit''" and P = demo_platform
               and E = node_env and ex = demo_exports and h = roomy_core] a5 n
    by simp
  have i6: "fst (evaluate demo_platform browser_env demo_exports (Options ?o6) roomy_core) =
     (Inl (Error ''orbit.evaluate cannot read file paths in this environment''), roomy_core)"
    using evaluate_options_resolved
            [where opts = ?o6 and path = "''/tmp/config.orbit''" and P = demo_platform
               and E = browser_env and ex = demo_exports and h = roomy_core] a6 nb
    by simp
  have i7: "evaluate demo_platform node_env demo_exports (Options ?o7) roomy_core =
     ((Inl (TypeError ''orbit.evaluate requires a source string or options with filePath.''),
       roomy_core), [])"
    using evaluate_options_resolved
            [where opts = ?o7 and P = demo_platform and E = node_env
               and ex = demo_exports and h = roomy_core]
    by simp
  have i8: "fst (evaluate demo_platform node_env demo_exports (Options ?o8) roomy_core) =
     invoke demo_platform demo_exports (encodeString demo_platform ''app { name: 1 }'')
       (orbit_evaluate demo_exports) (bytesToJson demo_platform) roomy_core"
    using evaluate_options_resolved
            [where opts = ?o8 and path = ?p8 and contents = "''app { name: 1 }''"
               and P = demo_platform and E = node_env and ex = demo_exports and h = roomy_core] a8
    by simp
  from i1 i2 i3 i4 i5 i6 i7 i8 c2 c6 show ?thesis by (simp add: prod_eq_iff)
qed

text \<open>
  Claim C10. With the empty string as \<open>filePath\<close> and no \<open>source\<close>, \<open>evaluate\<close>
  throws the \<open>TypeError\<close> about the shape of its argument, on every host, also one
  with a file system, without calling the file system and without a boundary call:
  it does exactly what it does when \<open>filePath\<close> is absent.
\<close>

theorem empty_filePath_as_absent:
  "source opts = None \<and> filePath opts = Some [] \<longrightarrow>
     evaluate P E ex (Options opts) h =
       ((Inl (TypeError ''orbit.evaluate requires a source string or options with filePath.''), h),
        []) \<and>
     evaluate P E ex (Options opts) h = evaluate P E ex (Options (opts\<lparr>filePath := None\<rparr>)) h"
  by (simp add: evaluate_def resolveEvaluateInput_def)

text \<open>An instance on the host with a file system.\<close>

theorem empty_filePath_as_absent_witness:
  "evaluate demo_platform node_env demo_exports
     (Options \<lparr>filePath = Some [], source = None, encoding = None\<rparr>) roomy_core =
     ((Inl (TypeError ''orbit.evaluate requires a source string or options with filePath.''),
       roomy_core), [])"
  using empty_filePath_as_absent [where opts = "\<lparr>filePath = Some [], source = None, encoding = None\<rparr>"
               and P = demo_platform and E = node_env and ex = demo_exports and h = roomy_core]
  by simp

subsection \<open>Instantiation\<close>

lemma check_required_Inr:
  "(check_required ks ex = Inr ()) = (\<forall>k\<in>set ks. ex k \<noteq> None)"
  by (induction ks) (auto split: option.splits)

lemma check_required_Inl:
  "check_required ks ex = Inl e \<Longrightarrow>
     \<exists>k\<in>set ks. ex k = None \<and> e = Error (''orbit wasm is missing required export: '' @ k)"
  by (induction ks) (auto split: option.splits)

lemma validateExports_Inr:
  "(validateExports ex = Inr ()) =
     ((\<forall>k\<in>set required. ex k \<noteq> None) \<and> ex ''memory'' = Some MemoryExport)"
proof (cases "check_required required ex")
  case (Inl e)
  moreover from check_required_Inl [OF Inl] have "\<not> (\<forall>k\<in>set required. ex k \<noteq> None)" by blast
  ultimately show ?thesis by (simp add: validateExports_def)
next
  case (Inr u)
  then have "\<forall>k\<in>set required. ex k \<noteq> None" using check_required_Inr [of required ex] by simp
  with Inr show ?thesis
    by (simp add: validateExports_def split: option.splits export_value.splits)
qed

text \<open>
  Claim C6. When the instantiated module lacks one of the eleven required exports,
  \<open>createOrbit\<close> fails with the error that names a missing export; when all are there
  and \<open>memory\<close> is not a memory, it fails with the error of line 410. Whenever
  \<open>createOrbit\<close> returns an \<open>OrbitCore\<close>, every required export is there and
  \<open>memory\<close> is a memory: so no boundary call can be made on an instance that has not
  passed the validation.
\<close>

theorem missing_export_rejected:
  assumes "instantiateOrbit W options = Inr i"
  shows "(k \<in> set [''memory'', ''orbit_alloc'', ''orbit_dealloc'', ''orbit_version'', ''orbit_parse'',
                   ''orbit_parse_with_recovery'', ''orbit_evaluate'', ''orbit_evaluate_ast'',
                   ''orbit_value_to_json'', ''orbit_value_to_yaml'', ''orbit_value_to_msgpack''] \<and>
          exports_object i k = None \<longrightarrow>
            (\<exists>key\<in>set required. exports_object i key = None \<and>
               createOrbit W options =
                 Inl (Error (''orbit wasm is missing required export: '' @ key)))) \<and>
         ((\<forall>key\<in>set required. exports_object i key \<noteq> None) \<and>
          exports_object i ''memory'' \<noteq> Some MemoryExport \<longrightarrow>
            createOrbit W options = Inl (Error ''orbit wasm did not export a WebAssembly.Memory'')) \<and>
         (createOrbit W options = Inr r \<longrightarrow>
            (\<forall>key\<in>set required. exports_object i key \<noteq> None) \<and>
            exports_object i ''memory'' = Some MemoryExport)"
proof -
  have a: "\<exists>key\<in>set required. exports_object i key = None \<and>
               createOrbit W options =
                 Inl (Error (''orbit wasm is missing required export: '' @ key))"
    if "k \<in> set required" "exports_object i k = None"
  proof (cases "check_required required (exports_object i)")
    case (Inl e)
    from check_required_Inl [OF Inl] obtain key where
      "key \<in> set required" "exports_object i key = None"
      "e = Error (''orbit wasm is missing required export: '' @ key)" by blast
    with Inl assms show ?thesis by (auto simp: createOrbit_def validateExports_def)
  next
    case (Inr u)
    then have "\<forall>k\<in>set required. exports_object i k \<noteq> None"
      using check_required_Inr [of required "exports_object i"] by simp
    with that show ?thesis by blast
  qed
  have b: "createOrbit W options = Inl (Error ''orbit wasm did not export a WebAssembly.Memory'')"
    if "\<forall>key\<in>set required. exports_object i key \<noteq> None"
       "exports_object i ''memory'' \<noteq> Some MemoryExport"
  proof -
    from that(1) have "check_required required (exports_object i) = Inr ()"
      using check_required_Inr by blast
    with that(2) assms show ?thesis
      by (simp add: createOrbit_def validateExports_def split: option.splits export_value.splits)
  qed
  have c: "(\<forall>key\<in>set required. exports_object i key \<noteq> None) \<and>
            exports_object i ''memory'' = Some MemoryExport"
    if "createOrbit W options = Inr r"
  proof -
    from that assms have "validateExports (exports_object i) = Inr ()"
      by (simp add: createOrbit_def split: sum.splits)
    then show ?thesis using validateExports_Inr by blast
  qed
  from a b c show ?thesis unfolding required_def [symmetric] by blast
qed

text \<open>
  An instance: the custom hook gives a module without \<open>orbit_evaluate\<close>.
\<close>

theorem missing_export_rejected_witness:
  "createOrbit demo_wasm_env
     (Some \<lparr>binary = None, module = None, url_opt = None,
            instantiate = Some (\<lambda>i. Inr (instance_without ''orbit_evaluate'')),
            imports_opt = None\<rparr>) =
   Inl (Error ''orbit wasm is missing required export: orbit_evaluate'')"
proof -
  let ?o = "Some \<lparr>binary = None, module = None, url_opt = None,
            instantiate = Some (\<lambda>i. Inr (instance_without ''orbit_evaluate'')),
            imports_opt = None\<rparr> :: (nat, int) OrbitInitOptions option"
  have a: "instantiateOrbit demo_wasm_env ?o = Inr (instance_without ''orbit_evaluate'')"
    by (simp add: instantiateOrbit_def imports_of_def)
  have b: "''orbit_evaluate'' \<in> set [''memory'', ''orbit_alloc'', ''orbit_dealloc'', ''orbit_version'', ''orbit_parse'',
                   ''orbit_parse_with_recovery'', ''orbit_evaluate'', ''orbit_evaluate_ast'',
                   ''orbit_value_to_json'', ''orbit_value_to_yaml'', ''orbit_value_to_msgpack'']"
    by simp
  have c: "exports_object (instance_without ''orbit_evaluate'') ''orbit_evaluate'' = None"
    by (simp add: instance_without_def required_def)
  from missing_export_rejected [OF a, where k = "''orbit_evaluate''"] b c obtain key where
    k: "key \<in> set required" "exports_object (instance_without ''orbit_evaluate'') key = None"
       "createOrbit demo_wasm_env ?o =
          Inl (Error (''orbit wasm is missing required export: '' @ key))"
    by blast
  from k(1,2) have "key = ''orbit_evaluate''"
    by (auto simp: required_def instance_without_def split: if_splits)
  with k(3) show ?thesis by simp
qed

text \<open>
  Claim C7. \<open>instantiateOrbit\<close> resolves the configuration in a fixed order. With
  a custom hook, the result is what the hook returns, and \<open>module\<close>, \<open>binary\<close> and
  \<open>url\<close> do not matter. Without a hook and with a module, the module is
  instantiated, and \<open>binary\<close> and \<open>url\<close> do not matter. With neither and with
  raw bytes, the bytes are instantiated, and \<open>url\<close> does not matter. With none of
  them, and without any options, the bytes are loaded from the configured or the
  default location.
\<close>

theorem instantiation_precedence:
  "(instantiate opts = Some hook \<longrightarrow>
      instantiateOrbit W (Some opts) = hook (imports_of (Some opts)) \<and>
      instantiateOrbit W (Some (opts\<lparr>module := md', binary := bin', url_opt := u'\<rparr>)) =
        instantiateOrbit W (Some opts)) \<and>
   (instantiate opts = None \<and> module opts = Some md \<longrightarrow>
      instantiateOrbit W (Some opts) = instantiate_module W md (imports_of (Some opts)) \<and>
      instantiateOrbit W (Some (opts\<lparr>binary := bin', url_opt := u'\<rparr>)) =
        instantiateOrbit W (Some opts)) \<and>
   (instantiate opts = None \<and> module opts = None \<and> binary opts = Some bin \<longrightarrow>
      instantiateOrbit W (Some opts) =
        instantiate_from_bytes W (bufferSourceToUint8Array bin) (imports_of (Some opts)) \<and>
      instantiateOrbit W (Some (opts\<lparr>url_opt := u'\<rparr>)) = instantiateOrbit W (Some opts)) \<and>
   (instantiate opts = None \<and> module opts = None \<and> binary opts = None \<longrightarrow>
      instantiateOrbit W (Some opts) =
        instantiate_from_bytes W (loadWasmBytes W (url_opt opts)) (imports_of (Some opts))) \<and>
   instantiateOrbit W None = instantiate_from_bytes W (loadWasmBytes W None) []"
  by (simp add: instantiateOrbit_def imports_of_def)

text \<open>
  Instances, on an environment where the module \<open>m\<close> gives the instance \<open>m\<close> and
  \<open>n\<close> bytes give the instance \<open>n\<close>: a hook wins over a module and bytes; a module
  wins over bytes; two bytes win over a location; without anything, the four bytes of
  the default location are loaded.
\<close>

theorem instantiation_precedence_witness:
  "instantiateOrbit demo_wasm_env
     (Some \<lparr>binary = Some (ArrayBuffer [1, 2]), module = Some 5, url_opt = None,
            instantiate = Some (\<lambda>i. Inr (demo_instance 9)), imports_opt = None\<rparr>) =
     Inr (demo_instance 9) \<and>
   instantiateOrbit demo_wasm_env
     (Some \<lparr>binary = Some (ArrayBuffer [1, 2]), module = Some 5, url_opt = None,
            instantiate = None, imports_opt = None\<rparr>) =
     Inr (demo_instance 5) \<and>
   instantiateOrbit demo_wasm_env
     (Some \<lparr>binary = Some (ArrayBuffer [1, 2]), module = None,
            url_opt = Some (UrlString ''file:///elsewhere.wasm''),
            instantiate = None, imports_opt = None\<rparr>) =
     Inr (demo_instance 2) \<and>
   instantiateOrbit demo_wasm_env
     (Some \<lparr>binary = None, module = None, url_opt = None,
            instantiate = None, imports_opt = None\<rparr>) =
     Inr (demo_instance 4)"
proof -
  let ?o1 = "\<lparr>binary = Some (ArrayBuffer [1, 2]), module = Some 5, url_opt = None,
            instantiate = Some (\<lambda>i. Inr (demo_instance 9)), imports_opt = None\<rparr>
            :: (nat, int) OrbitInitOptions"
  let ?o2 = "\<lparr>binary = Some (ArrayBuffer [1, 2]), module = Some 5, url_opt = None,
            instantiate = None, imports_opt = None\<rparr> :: (nat, int) OrbitInitOptions"
  let ?o3 = "\<lparr>binary = Some (ArrayBuffer [1, 2]), module = None,
            url_opt = Some (UrlString ''file:///elsewhere.wasm''),
            instantiate = None, imports_opt = None\<rparr> :: (nat, int) OrbitInitOptions"
  let ?o4 = "\<lparr>binary = None, module = None, url_opt = None,
            instantiate = None, imports_opt = None\<rparr> :: (nat, int) OrbitInitOptions"
  have i1: "instantiateOrbit demo_wasm_env (Some ?o1) = Inr (demo_instance 9)"
    using instantiation_precedence [where opts = ?o1 and W = demo_wasm_env and hook = "\<lambda>i. Inr (demo_instance 9)"]
    by simp
  have i2: "instantiateOrbit demo_wasm_env (Some ?o2) = Inr (demo_instance 5)"
    using instantiation_precedence [where opts = ?o2 and W = demo_wasm_env and md = 5]
    by (simp add: demo_wasm_env_def)
  have i3: "instantiateOrbit demo_wasm_env (Some ?o3) = Inr (demo_instance 2)"
    using instantiation_precedence [where opts = ?o3 and W = demo_wasm_env and bin = "ArrayBuffer [1, 2]"]
    by (simp add: demo_wasm_env_def instantiate_from_bytes_def bufferSourceToUint8Array_def
          instance_of_def eval_nat_numeral)
  have i4: "instantiateOrbit demo_wasm_env (Some ?o4) = Inr (demo_instance 4)"
    using instantiation_precedence [where opts = ?o4 and W = demo_wasm_env]
    by (simp add: demo_wasm_env_def instantiate_from_bytes_def loadWasmBytes_def instance_of_def
          eval_nat_numeral)
  from i1 i2 i3 i4 show ?thesis by simp
qed

end

